theory Spec2Isabelle
  imports Main
begin

section \<open>Strings of the program\<close>

text \<open>
  A Python \<open>str\<close> is modelled by its UTF-8 encoding, a \<^typ>\<open>string\<close> of bytes. The program
  only compares its texts for equality, concatenates them and hands the text of a message
  to \<open>int()\<close>; equality and concatenation agree on code points and on their UTF-8 bytes.
  The interface texts of \<open>Config.TEXTS\<close> and the literals of the handlers are Russian with
  emoji; every definition below carries an English gloss of the text it encodes.
\<close>

definition newline :: string where
  "newline = [CHR 0x0A]"

fun join :: "string \<Rightarrow> string list \<Rightarrow> string" where
  \<comment> \<open>\<open>sep.join(xs)\<close>\<close>
  "join sep [] = []"
| "join sep [x] = x"
| "join sep (x # y # ys) = x @ sep @ join sep (y # ys)"

definition digit_char :: "nat \<Rightarrow> char" where
  "digit_char d = ''0123456789'' ! d"

fun str_nat :: "nat \<Rightarrow> string" where
  "str_nat n = (if n < 10 then [digit_char n] else str_nat (n div 10) @ [digit_char (n mod 10)])"

declare str_nat.simps [simp del]

definition str_int :: "int \<Rightarrow> string" where
  \<comment> \<open>\<open>str(i)\<close>, which is what \<open>format\<close> and an f-string insert for an \<open>int\<close>\<close>
  "str_int i = (if i < 0 then ''-'' @ str_nat (nat (- i)) else str_nat (nat i))"

subsection \<open>\<open>Config.TEXTS\<close> and the message literals of the handlers\<close>

definition start_message :: string where
  \<comment> \<open>TEXTS[start_message]: Press the button:\<close>
  "start_message =
     [CHR 0xD0, CHR 0x9D, CHR 0xD0, CHR 0xB0, CHR 0xD0, CHR 0xB6, CHR 0xD0, CHR 0xBC,
     CHR 0xD0, CHR 0xB8, CHR 0xD1, CHR 0x82, CHR 0xD0, CHR 0xB5] @ '' '' @ [CHR 0xD0,
     CHR 0xBA, CHR 0xD0, CHR 0xBD, CHR 0xD0, CHR 0xBE, CHR 0xD0, CHR 0xBF, CHR 0xD0,
     CHR 0xBA, CHR 0xD1, CHR 0x83] @ '':''"

definition main_button :: string where
  \<comment> \<open>TEXTS[main_button]: (bar chart emoji) Get the total\<close>
  "main_button =
     [CHR 0xF0, CHR 0x9F, CHR 0x93, CHR 0x8A] @ '' '' @ [CHR 0xD0, CHR 0x9F, CHR 0xD0,
     CHR 0xBE, CHR 0xD0, CHR 0xBB, CHR 0xD1, CHR 0x83, CHR 0xD1, CHR 0x87, CHR 0xD0,
     CHR 0xB8, CHR 0xD1, CHR 0x82, CHR 0xD1, CHR 0x8C] @ '' '' @ [CHR 0xD0, CHR 0xB8,
     CHR 0xD1, CHR 0x82, CHR 0xD0, CHR 0xBE, CHR 0xD0, CHR 0xB3]"

definition add_button :: string where
  \<comment> \<open>TEXTS[add_button]: (heavy plus sign U+2795) Add a user\<close>
  "add_button =
     [CHR 0xE2, CHR 0x9E, CHR 0x95] @ '' '' @ [CHR 0xD0, CHR 0x94, CHR 0xD0, CHR 0xBE,
     CHR 0xD0, CHR 0xB1, CHR 0xD0, CHR 0xB0, CHR 0xD0, CHR 0xB2, CHR 0xD0, CHR 0xB8,
     CHR 0xD1, CHR 0x82, CHR 0xD1, CHR 0x8C] @ '' '' @ [CHR 0xD0, CHR 0xBF, CHR 0xD0,
     CHR 0xBE, CHR 0xD0, CHR 0xBB, CHR 0xD1, CHR 0x8C, CHR 0xD0, CHR 0xB7, CHR 0xD0,
     CHR 0xBE, CHR 0xD0, CHR 0xB2, CHR 0xD0, CHR 0xB0, CHR 0xD1, CHR 0x82, CHR 0xD0,
     CHR 0xB5, CHR 0xD0, CHR 0xBB, CHR 0xD1, CHR 0x8F]"

definition remove_button :: string where
  \<comment> \<open>TEXTS[remove_button]: (heavy minus sign U+2796) Remove a user\<close>
  "remove_button =
     [CHR 0xE2, CHR 0x9E, CHR 0x96] @ '' '' @ [CHR 0xD0, CHR 0xA3, CHR 0xD0, CHR 0xB4,
     CHR 0xD0, CHR 0xB0, CHR 0xD0, CHR 0xBB, CHR 0xD0, CHR 0xB8, CHR 0xD1, CHR 0x82,
     CHR 0xD1, CHR 0x8C] @ '' '' @ [CHR 0xD0, CHR 0xBF, CHR 0xD0, CHR 0xBE, CHR 0xD0,
     CHR 0xBB, CHR 0xD1, CHR 0x8C, CHR 0xD0, CHR 0xB7, CHR 0xD0, CHR 0xBE, CHR 0xD0,
     CHR 0xB2, CHR 0xD0, CHR 0xB0, CHR 0xD1, CHR 0x82, CHR 0xD0, CHR 0xB5, CHR 0xD0,
     CHR 0xBB, CHR 0xD1, CHR 0x8F]"

definition response_template :: "string \<Rightarrow> string \<Rightarrow> string" where
  \<comment> \<open>TEXTS[response_template].format(title=..., value=...): Total {title}: {value}\<close>
  "response_template title v =
     [CHR 0xD0, CHR 0x92, CHR 0xD1, CHR 0x81, CHR 0xD0, CHR 0xB5, CHR 0xD0, CHR 0xB3,
     CHR 0xD0, CHR 0xBE] @ '' '' @ title @ '': '' @ v"

definition error_message :: string where
  \<comment> \<open>TEXTS[error_message]: (no entry emoji) An error occurred while processing\<close>
  "error_message =
     [CHR 0xF0, CHR 0x9F, CHR 0x9A, CHR 0xAB] @ '' '' @ [CHR 0xD0, CHR 0x9F, CHR 0xD1,
     CHR 0x80, CHR 0xD0, CHR 0xBE, CHR 0xD0, CHR 0xB8, CHR 0xD0, CHR 0xB7, CHR 0xD0,
     CHR 0xBE, CHR 0xD1, CHR 0x88, CHR 0xD0, CHR 0xBB, CHR 0xD0, CHR 0xB0] @ '' '' @
     [CHR 0xD0, CHR 0xBE, CHR 0xD1, CHR 0x88, CHR 0xD0, CHR 0xB8, CHR 0xD0, CHR 0xB1,
     CHR 0xD0, CHR 0xBA, CHR 0xD0, CHR 0xB0] @ '' '' @ [CHR 0xD0, CHR 0xBF, CHR 0xD1,
     CHR 0x80, CHR 0xD0, CHR 0xB8] @ '' '' @ [CHR 0xD0, CHR 0xBE, CHR 0xD0, CHR 0xB1,
     CHR 0xD1, CHR 0x80, CHR 0xD0, CHR 0xB0, CHR 0xD0, CHR 0xB1, CHR 0xD0, CHR 0xBE,
     CHR 0xD1, CHR 0x82, CHR 0xD0, CHR 0xBA, CHR 0xD0, CHR 0xB5]"

definition na_value :: string where
  \<comment> \<open>TEXTS[na_value]: N/A\<close>
  "na_value =
     [CHR 0xD0, CHR 0x9D] @ ''/'' @ [CHR 0xD0, CHR 0x94]"

definition access_denied :: "int \<Rightarrow> string" where
  \<comment> \<open>TEXTS[access_denied].format(user_id=...): (no entry emoji) Access denied! Your ID: {user_id}\<close>
  "access_denied uid =
     [CHR 0xF0, CHR 0x9F, CHR 0x9A, CHR 0xAB] @ '' '' @ [CHR 0xD0, CHR 0x94, CHR 0xD0,
     CHR 0xBE, CHR 0xD1, CHR 0x81, CHR 0xD1, CHR 0x82, CHR 0xD1, CHR 0x83, CHR 0xD0,
     CHR 0xBF] @ '' '' @ [CHR 0xD0, CHR 0xB7, CHR 0xD0, CHR 0xB0, CHR 0xD0, CHR 0xBF,
     CHR 0xD1, CHR 0x80, CHR 0xD0, CHR 0xB5, CHR 0xD1, CHR 0x89, CHR 0xD0, CHR 0xB5,
     CHR 0xD0, CHR 0xBD] @ ''! '' @ [CHR 0xD0, CHR 0x92, CHR 0xD0, CHR 0xB0, CHR 0xD1,
     CHR 0x88] @ '' ID: '' @ str_int uid"

definition admin_only :: string where
  \<comment> \<open>TEXTS[admin_only]: (no entry emoji) For the administrator only!\<close>
  "admin_only =
     [CHR 0xF0, CHR 0x9F, CHR 0x9A, CHR 0xAB] @ '' '' @ [CHR 0xD0, CHR 0xA2, CHR 0xD0,
     CHR 0xBE, CHR 0xD0, CHR 0xBB, CHR 0xD1, CHR 0x8C, CHR 0xD0, CHR 0xBA, CHR 0xD0,
     CHR 0xBE] @ '' '' @ [CHR 0xD0, CHR 0xB4, CHR 0xD0, CHR 0xBB, CHR 0xD1, CHR 0x8F] @ '' ''
     @ [CHR 0xD0, CHR 0xB0, CHR 0xD0, CHR 0xB4, CHR 0xD0, CHR 0xBC, CHR 0xD0, CHR 0xB8,
     CHR 0xD0, CHR 0xBD, CHR 0xD0, CHR 0xB8, CHR 0xD1, CHR 0x81, CHR 0xD1, CHR 0x82,
     CHR 0xD1, CHR 0x80, CHR 0xD0, CHR 0xB0, CHR 0xD1, CHR 0x82, CHR 0xD0, CHR 0xBE,
     CHR 0xD1, CHR 0x80, CHR 0xD0, CHR 0xB0] @ ''!''"

definition add_user_message :: string where
  \<comment> \<open>TEXTS[add_user_message]: Enter the user ID:\<close>
  "add_user_message =
     [CHR 0xD0, CHR 0x92, CHR 0xD0, CHR 0xB2, CHR 0xD0, CHR 0xB5, CHR 0xD0, CHR 0xB4,
     CHR 0xD0, CHR 0xB8, CHR 0xD1, CHR 0x82, CHR 0xD0, CHR 0xB5] @ '' ID '' @ [CHR 0xD0,
     CHR 0xBF, CHR 0xD0, CHR 0xBE, CHR 0xD0, CHR 0xBB, CHR 0xD1, CHR 0x8C, CHR 0xD0,
     CHR 0xB7, CHR 0xD0, CHR 0xBE, CHR 0xD0, CHR 0xB2, CHR 0xD0, CHR 0xB0, CHR 0xD1,
     CHR 0x82, CHR 0xD0, CHR 0xB5, CHR 0xD0, CHR 0xBB, CHR 0xD1, CHR 0x8F] @ '':''"

definition remove_user_message :: string where
  \<comment> \<open>TEXTS[remove_user_message]: Enter the user ID: (the same text as add_user_message)\<close>
  "remove_user_message =
     [CHR 0xD0, CHR 0x92, CHR 0xD0, CHR 0xB2, CHR 0xD0, CHR 0xB5, CHR 0xD0, CHR 0xB4,
     CHR 0xD0, CHR 0xB8, CHR 0xD1, CHR 0x82, CHR 0xD0, CHR 0xB5] @ '' ID '' @ [CHR 0xD0,
     CHR 0xBF, CHR 0xD0, CHR 0xBE, CHR 0xD0, CHR 0xBB, CHR 0xD1, CHR 0x8C, CHR 0xD0,
     CHR 0xB7, CHR 0xD0, CHR 0xBE, CHR 0xD0, CHR 0xB2, CHR 0xD0, CHR 0xB0, CHR 0xD1,
     CHR 0x82, CHR 0xD0, CHR 0xB5, CHR 0xD0, CHR 0xBB, CHR 0xD1, CHR 0x8F] @ '':''"

definition invalid_id :: string where
  \<comment> \<open>TEXTS[invalid_id]: (cross mark emoji) Invalid ID format. Enter a whole number:\<close>
  "invalid_id =
     [CHR 0xE2, CHR 0x9D, CHR 0x8C] @ '' '' @ [CHR 0xD0, CHR 0x9D, CHR 0xD0, CHR 0xB5,
     CHR 0xD0, CHR 0xB2, CHR 0xD0, CHR 0xB5, CHR 0xD1, CHR 0x80, CHR 0xD0, CHR 0xBD,
     CHR 0xD1, CHR 0x8B, CHR 0xD0, CHR 0xB9] @ '' '' @ [CHR 0xD1, CHR 0x84, CHR 0xD0,
     CHR 0xBE, CHR 0xD1, CHR 0x80, CHR 0xD0, CHR 0xBC, CHR 0xD0, CHR 0xB0, CHR 0xD1,
     CHR 0x82] @ '' ID. '' @ [CHR 0xD0, CHR 0x92, CHR 0xD0, CHR 0xB2, CHR 0xD0, CHR 0xB5,
     CHR 0xD0, CHR 0xB4, CHR 0xD0, CHR 0xB8, CHR 0xD1, CHR 0x82, CHR 0xD0, CHR 0xB5] @ '' ''
     @ [CHR 0xD1, CHR 0x86, CHR 0xD0, CHR 0xB5, CHR 0xD0, CHR 0xBB, CHR 0xD0, CHR 0xBE,
     CHR 0xD0, CHR 0xB5] @ '' '' @ [CHR 0xD1, CHR 0x87, CHR 0xD0, CHR 0xB8, CHR 0xD1,
     CHR 0x81, CHR 0xD0, CHR 0xBB, CHR 0xD0, CHR 0xBE] @ '':''"

definition cancel_message :: string where
  \<comment> \<open>TEXTS[cancel_message]: (no entry emoji) Operation cancelled\<close>
  "cancel_message =
     [CHR 0xF0, CHR 0x9F, CHR 0x9A, CHR 0xAB] @ '' '' @ [CHR 0xD0, CHR 0x9E, CHR 0xD0,
     CHR 0xBF, CHR 0xD0, CHR 0xB5, CHR 0xD1, CHR 0x80, CHR 0xD0, CHR 0xB0, CHR 0xD1,
     CHR 0x86, CHR 0xD0, CHR 0xB8, CHR 0xD1, CHR 0x8F] @ '' '' @ [CHR 0xD0, CHR 0xBE,
     CHR 0xD1, CHR 0x82, CHR 0xD0, CHR 0xBC, CHR 0xD0, CHR 0xB5, CHR 0xD0, CHR 0xBD,
     CHR 0xD0, CHR 0xB5, CHR 0xD0, CHR 0xBD, CHR 0xD0, CHR 0xB0]"

definition users_list_header :: string where
  \<comment> \<open>literal in add_user/remove_user: (clipboard emoji) Current list of users: followed by a newline\<close>
  "users_list_header =
     [CHR 0xF0, CHR 0x9F, CHR 0x93, CHR 0x8B] @ '' '' @ [CHR 0xD0, CHR 0xA2, CHR 0xD0,
     CHR 0xB5, CHR 0xD0, CHR 0xBA, CHR 0xD1, CHR 0x83, CHR 0xD1, CHR 0x89, CHR 0xD0,
     CHR 0xB8, CHR 0xD0, CHR 0xB9] @ '' '' @ [CHR 0xD1, CHR 0x81, CHR 0xD0, CHR 0xBF,
     CHR 0xD0, CHR 0xB8, CHR 0xD1, CHR 0x81, CHR 0xD0, CHR 0xBE, CHR 0xD0, CHR 0xBA] @ '' ''
     @ [CHR 0xD0, CHR 0xBF, CHR 0xD0, CHR 0xBE, CHR 0xD0, CHR 0xBB, CHR 0xD1, CHR 0x8C,
     CHR 0xD0, CHR 0xB7, CHR 0xD0, CHR 0xBE, CHR 0xD0, CHR 0xB2, CHR 0xD0, CHR 0xB0,
     CHR 0xD1, CHR 0x82, CHR 0xD0, CHR 0xB5, CHR 0xD0, CHR 0xBB, CHR 0xD0, CHR 0xB5,
     CHR 0xD0, CHR 0xB9] @ '':'' @ [CHR 0x0A]"

definition users_list_item :: "int \<Rightarrow> string" where
  \<comment> \<open>f-string in add_user/remove_user: (white small square emoji) {user_id}\<close>
  "users_list_item uid =
     [CHR 0xE2, CHR 0x96, CHR 0xAB, CHR 0xEF, CHR 0xB8, CHR 0x8F] @ '' '' @ str_int uid"

definition users_list_empty :: string where
  \<comment> \<open>literal in add_user/remove_user: (clipboard emoji) The list of users is empty\<close>
  "users_list_empty =
     [CHR 0xF0, CHR 0x9F, CHR 0x93, CHR 0x8B] @ '' '' @ [CHR 0xD0, CHR 0xA1, CHR 0xD0,
     CHR 0xBF, CHR 0xD0, CHR 0xB8, CHR 0xD1, CHR 0x81, CHR 0xD0, CHR 0xBE, CHR 0xD0,
     CHR 0xBA] @ '' '' @ [CHR 0xD0, CHR 0xBF, CHR 0xD0, CHR 0xBE, CHR 0xD0, CHR 0xBB,
     CHR 0xD1, CHR 0x8C, CHR 0xD0, CHR 0xB7, CHR 0xD0, CHR 0xBE, CHR 0xD0, CHR 0xB2,
     CHR 0xD0, CHR 0xB0, CHR 0xD1, CHR 0x82, CHR 0xD0, CHR 0xB5, CHR 0xD0, CHR 0xBB,
     CHR 0xD0, CHR 0xB5, CHR 0xD0, CHR 0xB9] @ '' '' @ [CHR 0xD0, CHR 0xBF, CHR 0xD1,
     CHR 0x83, CHR 0xD1, CHR 0x81, CHR 0xD1, CHR 0x82]"

definition user_exists :: string where
  \<comment> \<open>literal in process_user_id: (information emoji) The user already exists\<close>
  "user_exists =
     [CHR 0xE2, CHR 0x84, CHR 0xB9, CHR 0xEF, CHR 0xB8, CHR 0x8F] @ '' '' @ [CHR 0xD0,
     CHR 0x9F, CHR 0xD0, CHR 0xBE, CHR 0xD0, CHR 0xBB, CHR 0xD1, CHR 0x8C, CHR 0xD0,
     CHR 0xB7, CHR 0xD0, CHR 0xBE, CHR 0xD0, CHR 0xB2, CHR 0xD0, CHR 0xB0, CHR 0xD1,
     CHR 0x82, CHR 0xD0, CHR 0xB5, CHR 0xD0, CHR 0xBB, CHR 0xD1, CHR 0x8C] @ '' '' @
     [CHR 0xD1, CHR 0x83, CHR 0xD0, CHR 0xB6, CHR 0xD0, CHR 0xB5] @ '' '' @ [CHR 0xD1,
     CHR 0x81, CHR 0xD1, CHR 0x83, CHR 0xD1, CHR 0x89, CHR 0xD0, CHR 0xB5, CHR 0xD1,
     CHR 0x81, CHR 0xD1, CHR 0x82, CHR 0xD0, CHR 0xB2, CHR 0xD1, CHR 0x83, CHR 0xD0,
     CHR 0xB5, CHR 0xD1, CHR 0x82]"

definition user_added :: "int \<Rightarrow> string" where
  \<comment> \<open>f-string in process_user_id: (check mark emoji) User {user_id} added\<close>
  "user_added uid =
     [CHR 0xE2, CHR 0x9C, CHR 0x85] @ '' '' @ [CHR 0xD0, CHR 0x9F, CHR 0xD0, CHR 0xBE,
     CHR 0xD0, CHR 0xBB, CHR 0xD1, CHR 0x8C, CHR 0xD0, CHR 0xB7, CHR 0xD0, CHR 0xBE,
     CHR 0xD0, CHR 0xB2, CHR 0xD0, CHR 0xB0, CHR 0xD1, CHR 0x82, CHR 0xD0, CHR 0xB5,
     CHR 0xD0, CHR 0xBB, CHR 0xD1, CHR 0x8C] @ '' '' @ str_int uid @ '' '' @ [CHR 0xD0,
     CHR 0xB4, CHR 0xD0, CHR 0xBE, CHR 0xD0, CHR 0xB1, CHR 0xD0, CHR 0xB0, CHR 0xD0,
     CHR 0xB2, CHR 0xD0, CHR 0xBB, CHR 0xD0, CHR 0xB5, CHR 0xD0, CHR 0xBD]"

definition user_removed :: "int \<Rightarrow> string" where
  \<comment> \<open>f-string in process_user_id: (check mark emoji) User {user_id} removed\<close>
  "user_removed uid =
     [CHR 0xE2, CHR 0x9C, CHR 0x85] @ '' '' @ [CHR 0xD0, CHR 0x9F, CHR 0xD0, CHR 0xBE,
     CHR 0xD0, CHR 0xBB, CHR 0xD1, CHR 0x8C, CHR 0xD0, CHR 0xB7, CHR 0xD0, CHR 0xBE,
     CHR 0xD0, CHR 0xB2, CHR 0xD0, CHR 0xB0, CHR 0xD1, CHR 0x82, CHR 0xD0, CHR 0xB5,
     CHR 0xD0, CHR 0xBB, CHR 0xD1, CHR 0x8C] @ '' '' @ str_int uid @ '' '' @ [CHR 0xD1,
     CHR 0x83, CHR 0xD0, CHR 0xB4, CHR 0xD0, CHR 0xB0, CHR 0xD0, CHR 0xBB, CHR 0xD0,
     CHR 0xB5, CHR 0xD0, CHR 0xBD]"

definition user_not_found :: string where
  \<comment> \<open>literal in process_user_id: (information emoji) User not found\<close>
  "user_not_found =
     [CHR 0xE2, CHR 0x84, CHR 0xB9, CHR 0xEF, CHR 0xB8, CHR 0x8F] @ '' '' @ [CHR 0xD0,
     CHR 0x9F, CHR 0xD0, CHR 0xBE, CHR 0xD0, CHR 0xBB, CHR 0xD1, CHR 0x8C, CHR 0xD0,
     CHR 0xB7, CHR 0xD0, CHR 0xBE, CHR 0xD0, CHR 0xB2, CHR 0xD0, CHR 0xB0, CHR 0xD1,
     CHR 0x82, CHR 0xD0, CHR 0xB5, CHR 0xD0, CHR 0xBB, CHR 0xD1, CHR 0x8C] @ '' '' @
     [CHR 0xD0, CHR 0xBD, CHR 0xD0, CHR 0xB5] @ '' '' @ [CHR 0xD0, CHR 0xBD, CHR 0xD0,
     CHR 0xB0, CHR 0xD0, CHR 0xB9, CHR 0xD0, CHR 0xB4, CHR 0xD0, CHR 0xB5, CHR 0xD0,
     CHR 0xBD]"

definition unknown_state :: string where
  \<comment> \<open>literal in process_user_id: (warning emoji) Unknown state\<close>
  "unknown_state =
     [CHR 0xE2, CHR 0x9A, CHR 0xA0, CHR 0xEF, CHR 0xB8, CHR 0x8F] @ '' '' @ [CHR 0xD0,
     CHR 0x9D, CHR 0xD0, CHR 0xB5, CHR 0xD0, CHR 0xB8, CHR 0xD0, CHR 0xB7, CHR 0xD0,
     CHR 0xB2, CHR 0xD0, CHR 0xB5, CHR 0xD1, CHR 0x81, CHR 0xD1, CHR 0x82, CHR 0xD0,
     CHR 0xBD, CHR 0xD0, CHR 0xBE, CHR 0xD0, CHR 0xB5] @ '' '' @ [CHR 0xD1, CHR 0x81,
     CHR 0xD0, CHR 0xBE, CHR 0xD1, CHR 0x81, CHR 0xD1, CHR 0x82, CHR 0xD0, CHR 0xBE,
     CHR 0xD1, CHR 0x8F, CHR 0xD0, CHR 0xBD, CHR 0xD0, CHR 0xB8, CHR 0xD0, CHR 0xB5]"

section \<open>Configuration and data\<close>

text \<open>
  \<open>Config.SHEET_CONFIG\<close> is a dictionary with the three keys \<open>income\<close>, \<open>consumption\<close> and
  \<open>cash\<close>, iterated in insertion order. The keys are a datatype and the dictionary is the
  association list of its items.
\<close>

datatype metric_key = income | consumption | cash

record sheet_config =
  sheet_name :: string
  search_phrase :: string
  title :: string

definition SHEET_CONFIG :: "(metric_key \<times> sheet_config) list" where
  \<comment> \<open>sheet names Sheet1..Sheet3; phrases Total income, Total expenses, Total in the
      cash desk; titles income, expenses, in the cash desk (all in Russian)\<close>
  "SHEET_CONFIG =
     [(income,
       \<lparr>sheet_name = [CHR 0xD0, CHR 0x9B, CHR 0xD0, CHR 0xB8, CHR 0xD1, CHR 0x81, CHR 0xD1, CHR 0x82] @ ''1'',
        search_phrase = [CHR 0xD0, CHR 0x92, CHR 0xD1, CHR 0x81, CHR 0xD0, CHR 0xB5, CHR 0xD0, CHR 0xB3,
          CHR 0xD0, CHR 0xBE] @ '' '' @ [CHR 0xD0, CHR 0xB4, CHR 0xD0, CHR 0xBE, CHR 0xD1, CHR 0x85,
          CHR 0xD0, CHR 0xBE, CHR 0xD0, CHR 0xB4, CHR 0xD1, CHR 0x8B],
        title = [CHR 0xD0, CHR 0xB4, CHR 0xD0, CHR 0xBE, CHR 0xD1, CHR 0x85, CHR 0xD0, CHR 0xBE,
          CHR 0xD0, CHR 0xB4, CHR 0xD1, CHR 0x8B]\<rparr>),
      (consumption,
       \<lparr>sheet_name = [CHR 0xD0, CHR 0x9B, CHR 0xD0, CHR 0xB8, CHR 0xD1, CHR 0x81, CHR 0xD1, CHR 0x82] @ ''2'',
        search_phrase = [CHR 0xD0, CHR 0x92, CHR 0xD1, CHR 0x81, CHR 0xD0, CHR 0xB5, CHR 0xD0, CHR 0xB3,
          CHR 0xD0, CHR 0xBE] @ '' '' @ [CHR 0xD1, CHR 0x80, CHR 0xD0, CHR 0xB0, CHR 0xD1, CHR 0x81,
          CHR 0xD1, CHR 0x85, CHR 0xD0, CHR 0xBE, CHR 0xD0, CHR 0xB4, CHR 0xD1, CHR 0x8B],
        title = [CHR 0xD1, CHR 0x80, CHR 0xD0, CHR 0xB0, CHR 0xD1, CHR 0x81, CHR 0xD1, CHR 0x85,
          CHR 0xD0, CHR 0xBE, CHR 0xD0, CHR 0xB4, CHR 0xD1, CHR 0x8B]\<rparr>),
      (cash,
       \<lparr>sheet_name = [CHR 0xD0, CHR 0x9B, CHR 0xD0, CHR 0xB8, CHR 0xD1, CHR 0x81, CHR 0xD1, CHR 0x82] @ ''3'',
        search_phrase = [CHR 0xD0, CHR 0x92, CHR 0xD1, CHR 0x81, CHR 0xD0, CHR 0xB5, CHR 0xD0, CHR 0xB3,
          CHR 0xD0, CHR 0xBE] @ '' '' @ [CHR 0xD0, CHR 0xB2] @ '' '' @ [CHR 0xD0, CHR 0xBA, CHR 0xD0,
          CHR 0xB0, CHR 0xD1, CHR 0x81, CHR 0xD1, CHR 0x81, CHR 0xD0, CHR 0xB5],
        title = [CHR 0xD0, CHR 0xB2] @ '' '' @ [CHR 0xD0, CHR 0xBA, CHR 0xD0, CHR 0xB0, CHR 0xD1,
          CHR 0x81, CHR 0xD1, CHR 0x81, CHR 0xD0, CHR 0xB5]\<rparr>)]"

text \<open>
  What the program takes from outside: \<open>Config.ADMIN_ID\<close>, read from the process
  environment, and Python's built-in \<open>int()\<close> on a message text, \<open>None\<close> standing for its
  \<open>ValueError\<close>. Both are parameters, so every theorem holds for any administrator and for
  Python's own parser, whatever it accepts (signs, surrounding blanks, underscores, digits
  of other scripts).
\<close>

record env =
  ADMIN_ID :: int
  py_int :: "string \<Rightarrow> int option"

text \<open>\<open>class States\<close> and \<open>ConversationHandler.END\<close> of the library.\<close>

definition AWAIT_USER_ID_ADD :: int where
  "AWAIT_USER_ID_ADD = 1"

definition AWAIT_USER_ID_REMOVE :: int where
  "AWAIT_USER_ID_REMOVE = 2"

definition END :: int where
  "END = - 1"

text \<open>
  The dictionary that \<open>load_users\<close> returns and \<open>save_users\<close> writes, and the file
  \<open>ALLOWED_USERS_FILE\<close>. A file is absent, or unreadable (opening it, \<open>json.load\<close>, a
  \<open>get\<close> on something that is no object or one of the \<open>int\<close> conversions raises), or it holds
  a JSON object, of which only the keys \<open>admin_id\<close> and \<open>allowed_users\<close> are read; each may
  be missing.
\<close>

record users =
  admin_id :: int
  allowed_users :: "int list"

datatype file_state = Absent | Unreadable | Json "int option" "int list option"

text \<open>
  What a write attempt by \<open>save_users\<close> meets: it succeeds, or it raises and the operating
  system leaves the file in some state (untouched when \<open>open\<close> fails, truncated when the
  dump breaks off).
\<close>

datatype save_outcome = Saved | SaveFailed file_state

datatype exn = NameError | APIError

text \<open>An incoming message: chat, sender, text, and the name of the bot command the text
  starts with, if it starts with one (the \<open>bot_command\<close> entity at offset 0).\<close>

record update =
  effective_chat :: int
  effective_user :: int
  message_text :: string
  command :: "string option"

type_synonym keyboard = "string list list"

record reply =
  chat :: int
  body :: string
  markup :: "keyboard option"

text \<open>One entry of the global \<open>cell_cache\<close>: the worksheet, the position and the value.\<close>

datatype worksheet = Worksheet string

record entry =
  sheet :: "worksheet option"
  pos :: "(int \<times> int) option"
  cell_value :: "string option"

text \<open>
  The state of the running bot: the users file on disk, the global \<open>cell_cache\<close>, the
  \<open>current_state\<close> slot of every chat's \<open>context.chat_data\<close> (no other key of it is ever
  used), the state the \<open>ConversationHandler\<close> keeps per (chat, user), and the replies sent
  so far, oldest first.
\<close>

record bot =
  users_file :: file_state
  cell_cache :: "metric_key \<Rightarrow> entry"
  chat_data :: "int \<Rightarrow> int option"
  conversations :: "int \<times> int \<Rightarrow> int option"
  outbox :: "reply list"

section \<open>The access list\<close>

definition load_users :: "env \<Rightarrow> file_state \<Rightarrow> users" where
  "load_users e f =
     (case f of
        Absent \<Rightarrow> \<lparr>admin_id = ADMIN_ID e, allowed_users = []\<rparr>
      | Json a us \<Rightarrow>
          \<lparr>admin_id = (case a of Some i \<Rightarrow> i | None \<Rightarrow> ADMIN_ID e),
           allowed_users = (case us of Some l \<Rightarrow> l | None \<Rightarrow> [])\<rparr>
      | Unreadable \<Rightarrow> \<lparr>admin_id = ADMIN_ID e, allowed_users = []\<rparr>)"

definition save_users :: "save_outcome \<Rightarrow> users \<Rightarrow> file_state \<Rightarrow> file_state" where
  \<comment> \<open>the exception of a failed write is logged and swallowed: nothing is returned or raised\<close>
  "save_users sv data f =
     (case sv of
        Saved \<Rightarrow> Json (Some (admin_id data)) (Some (allowed_users data))
      | SaveFailed f' \<Rightarrow> f')"

definition reply_text :: "update \<Rightarrow> string \<Rightarrow> keyboard option \<Rightarrow> bot \<Rightarrow> bot" where
  \<comment> \<open>\<open>update.message.reply_text(text, reply_markup=...)\<close>; delivery is taken to succeed\<close>
  "reply_text u txt kb b =
     b\<lparr>outbox := outbox b @ [\<lparr>chat = effective_chat u, body = txt, markup = kb\<rparr>]\<rparr>"

definition create_keyboard :: "env \<Rightarrow> int \<Rightarrow> bot \<Rightarrow> keyboard" where
  "create_keyboard e user_id b =
     (let user_data = load_users e (users_file b);
          is_admin = (user_id = admin_id user_data)
      in [[main_button]] @ (if is_admin then [[add_button, remove_button]] else []))"

definition check_access :: "env \<Rightarrow> update \<Rightarrow> bot \<Rightarrow> bot \<times> bool" where
  "check_access e u b =
     (let user_data = load_users e (users_file b);
          user_id = effective_user u
      in if user_id \<noteq> admin_id user_data \<and> user_id \<notin> set (allowed_users user_data)
         then (reply_text u (access_denied user_id) None b, False)
         else (b, True))"

section \<open>The value cache\<close>

text \<open>
  The spreadsheet service as \<open>init_cache\<close> meets it at start-up: whether
  \<open>initialize_google_sheets\<close> returns the spreadsheet, the worksheet of a name (\<open>None\<close>: the
  lookup raises), the result of \<open>sheet.find\<close>, and the result of reading a cell's value.
  A cell's value is a string or \<open>None\<close>.
\<close>

datatype find_result = Cell int int | CellNotFound | FindError

type_synonym cell_reader = "worksheet \<Rightarrow> int \<times> int \<Rightarrow> exn + string option"

record sheets =
  spreadsheet_opens :: bool
  worksheet_named :: "string \<Rightarrow> worksheet option"
  find_phrase :: "worksheet \<Rightarrow> string \<Rightarrow> find_result"
  read_cell :: cell_reader

definition initial_cache :: "metric_key \<Rightarrow> entry" where
  \<comment> \<open>the module-level initialiser of \<open>cell_cache\<close>\<close>
  "initial_cache = (\<lambda>key. \<lparr>sheet = None, pos = None, cell_value = None\<rparr>)"

definition init_key :: "sheets \<Rightarrow> metric_key \<times> sheet_config \<Rightarrow> (metric_key \<Rightarrow> entry) \<Rightarrow> (metric_key \<Rightarrow> entry)" where
  \<comment> \<open>the body of the loop of \<open>init_cache\<close>, with its two \<open>except\<close> clauses: every failure is
      logged and leaves the entry as it was, because the three values of the update are
      evaluated before \<open>update\<close> is called\<close>
  "init_key gs kc c =
     (case kc of (key, config) \<Rightarrow>
        (case worksheet_named gs (sheet_name config) of
           None \<Rightarrow> c
         | Some sh \<Rightarrow>
             (case find_phrase gs sh (search_phrase config) of
                CellNotFound \<Rightarrow> c
              | FindError \<Rightarrow> c
              | Cell row col \<Rightarrow>
                  (case read_cell gs sh (row, col + 1) of
                     Inl ex \<Rightarrow> c
                   | Inr v \<Rightarrow>
                       c(key := \<lparr>sheet = Some sh, pos = Some (row, col + 1), cell_value = v\<rparr>)))))"

definition init_cache :: "sheets \<Rightarrow> (metric_key \<Rightarrow> entry) \<Rightarrow> (metric_key \<Rightarrow> entry)" where
  "init_cache gs c =
     (if spreadsheet_opens gs then fold (init_key gs) SHEET_CONFIG c else c)"

fun update_keys :: "cell_reader \<Rightarrow> metric_key list \<Rightarrow> (metric_key \<Rightarrow> entry) \<Rightarrow> (metric_key \<Rightarrow> entry) \<times> exn option" where
  \<comment> \<open>the loop of \<open>update_cache\<close>: it stops at the first read that raises, and what it has
      written to the cache by then stays written\<close>
  "update_keys rd [] c = (c, None)"
| "update_keys rd (key # keys) c =
     (case (pos (c key), sheet (c key)) of
        (Some p, Some sh) \<Rightarrow>
          (case rd sh p of
             Inl ex \<Rightarrow> (c, Some ex)
           | Inr v \<Rightarrow> update_keys rd keys (c(key := (c key)\<lparr>cell_value := v\<rparr>)))
      | _ \<Rightarrow> update_keys rd keys c)"

definition update_cache :: "cell_reader \<Rightarrow> (metric_key \<Rightarrow> entry) \<Rightarrow> (metric_key \<Rightarrow> entry)" where
  \<comment> \<open>the \<open>try\<close> encloses the whole loop; its \<open>except\<close> logs the exception\<close>
  "update_cache rd c = fst (update_keys rd (map fst SHEET_CONFIG) c)"

definition value_or :: "string option \<Rightarrow> string \<Rightarrow> string" where
  \<comment> \<open>\<open>value or default\<close>: \<open>None\<close> and the empty string are false\<close>
  "value_or v d = (case v of None \<Rightarrow> d | Some s \<Rightarrow> if s = [] then d else s)"

definition response :: "(metric_key \<Rightarrow> entry) \<Rightarrow> string list" where
  \<comment> \<open>the list \<open>response\<close> that the loop of \<open>get_result\<close> builds, one line per key; the key
      \<open>value\<close> is in every entry, so the default of \<open>get\<close> is never taken\<close>
  "response c =
     map (\<lambda>(key, config).
            response_template (title config) (value_or (cell_value (c key)) na_value))
         SHEET_CONFIG"

section \<open>The handlers\<close>

text \<open>
  A handler takes the update and the state of the bot and gives the state it leaves and
  what it returns to the library: a value (\<open>None\<close> when it returns nothing) or the exception
  it raises.
\<close>

type_synonym handled = "bot \<times> (exn + int option)"

definition start :: "env \<Rightarrow> update \<Rightarrow> bot \<Rightarrow> handled" where
  \<comment> \<open>the \<open>except\<close> clause, which sends \<open>error_message\<close>, is reached only when building the
      keyboard or sending raises; sending always succeeds here\<close>
  "start e u b =
     (case check_access e u b of
        (b1, False) \<Rightarrow> (b1, Inr None)
      | (b1, True) \<Rightarrow>
          (let keyboard = create_keyboard e (effective_user u) b1
           in (reply_text u start_message (Some keyboard) b1, Inr None)))"

definition get_result :: "env \<Rightarrow> update \<Rightarrow> bot \<Rightarrow> handled" where
  \<comment> \<open>as in \<open>start\<close>, the \<open>except\<close> clause is not reached: nothing in the \<open>try\<close> raises here\<close>
  "get_result e u b =
     (case check_access e u b of
        (b1, False) \<Rightarrow> (b1, Inr None)
      | (b1, True) \<Rightarrow>
          (let keyboard = create_keyboard e (effective_user u) b1
           in (reply_text u (join newline (response (cell_cache b1))) (Some keyboard) b1,
               Inr None)))"

definition users_list :: "users \<Rightarrow> string" where
  \<comment> \<open>the conditional expression \<open>users_list\<close> of \<open>add_user\<close> and \<open>remove_user\<close>\<close>
  "users_list user_data =
     (if allowed_users user_data \<noteq> []
      then users_list_header @ join newline (map users_list_item (allowed_users user_data))
      else users_list_empty)"

definition add_user :: "env \<Rightarrow> update \<Rightarrow> bot \<Rightarrow> handled" where
  "add_user e u b =
     (let keyboard = create_keyboard e (effective_user u) b;
          b1 = b\<lparr>chat_data := (chat_data b)(effective_chat u \<mapsto> AWAIT_USER_ID_ADD)\<rparr>;
          user_data = load_users e (users_file b1);
          message = users_list user_data @ newline @ '' '' @ add_user_message
      in (reply_text u message (Some keyboard) b1, Inr (Some AWAIT_USER_ID_ADD)))"

definition remove_user :: "env \<Rightarrow> update \<Rightarrow> bot \<Rightarrow> handled" where
  "remove_user e u b =
     (let keyboard = create_keyboard e (effective_user u) b;
          b1 = b\<lparr>chat_data := (chat_data b)(effective_chat u \<mapsto> AWAIT_USER_ID_REMOVE)\<rparr>;
          user_data = load_users e (users_file b1);
          message = users_list user_data @ newline @ '' '' @ remove_user_message
      in (reply_text u message (Some keyboard) b1, Inr (Some AWAIT_USER_ID_REMOVE)))"

definition del_current_state :: "update \<Rightarrow> bot \<Rightarrow> bot" where
  \<comment> \<open>\<open>del context.chat_data["current_state"]\<close>\<close>
  "del_current_state u b = b\<lparr>chat_data := (chat_data b)(effective_chat u := None)\<rparr>"

definition process_user_id :: "env \<Rightarrow> save_outcome \<Rightarrow> update \<Rightarrow> int \<Rightarrow> bot \<Rightarrow> handled" where
  "process_user_id e sv u user_id b =
     (let current_state = chat_data b (effective_chat u);
          user_data = load_users e (users_file b)
      in if current_state = Some AWAIT_USER_ID_ADD then
           (if user_id \<in> set (allowed_users user_data)
            then (del_current_state u (reply_text u user_exists None b), Inr (Some END))
            else
              (let user_data' = user_data\<lparr>allowed_users := allowed_users user_data @ [user_id]\<rparr>;
                   b1 = b\<lparr>users_file := save_users sv user_data' (users_file b)\<rparr>
               in (del_current_state u (reply_text u (user_added user_id) None b1),
                   Inr (Some END))))
         else if current_state = Some AWAIT_USER_ID_REMOVE then
           (if user_id \<in> set (allowed_users user_data)
            then
              (let user_data' = user_data\<lparr>allowed_users := remove1 user_id (allowed_users user_data)\<rparr>;
                   b1 = b\<lparr>users_file := save_users sv user_data' (users_file b)\<rparr>
               in (del_current_state u (reply_text u (user_removed user_id) None b1),
                   Inr (Some END)))
            else (del_current_state u (reply_text u user_not_found None b), Inr (Some END)))
         else (reply_text u unknown_state None b, Inr (Some END)))"

definition handle_user_id_input :: "env \<Rightarrow> save_outcome \<Rightarrow> update \<Rightarrow> bot \<Rightarrow> handled" where
  \<comment> \<open>\<open>process_user_id\<close> raises no \<open>ValueError\<close> of its own (its \<open>remove\<close> is guarded by the
      membership test), so the \<open>except\<close> clause is reached from \<open>int()\<close> only\<close>
  "handle_user_id_input e sv u b =
     (case py_int e (message_text u) of
        Some user_id \<Rightarrow> process_user_id e sv u user_id b
      | None \<Rightarrow>
          (reply_text u invalid_id None b,
           Inr (Some (case chat_data b (effective_chat u) of Some st \<Rightarrow> st | None \<Rightarrow> END))))"

definition cancel :: "update \<Rightarrow> bot \<Rightarrow> handled" where
  \<comment> \<open>the name \<open>keyboard\<close> is bound neither in \<open>cancel\<close> nor at module level, so evaluating
      the arguments of \<open>reply_text\<close> raises \<open>NameError\<close>: nothing is sent and the \<open>return\<close>
      is not reached\<close>
  "cancel u b =
     (let b1 = (if chat_data b (effective_chat u) \<noteq> None then del_current_state u b else b)
      in (b1, Inl NameError))"

definition handle_buttons :: "env \<Rightarrow> update \<Rightarrow> bot \<Rightarrow> handled" where
  "handle_buttons e u b =
     (let user_data = load_users e (users_file b);
          user_id = effective_user u;
          txt = message_text u
      in if txt \<in> set [add_button, remove_button] \<and> user_id \<noteq> admin_id user_data
         then (reply_text u admin_only None b, Inr None)
         else if txt = main_button then get_result e u b
         else if txt = add_button then add_user e u b
         else if txt = remove_button then remove_user e u b
         else (b, Inr None))"

section \<open>The dispatch set up by \<open>main\<close>\<close>

text \<open>
  \<open>main\<close> registers four handlers, all in the library's default group, in this order: the
  \<open>ConversationHandler\<close>, \<open>handle_buttons\<close> on every text that is no command, \<open>start\<close> on the
  command \<open>start\<close>, and \<open>get_result\<close> on the text of the main button. For every update the
  library runs the first handler of a group whose \<open>check_update\<close> accepts it, and no other
  handler of that group. The \<open>ConversationHandler\<close> keeps one state per (chat, user): with
  no state it accepts what an entry point accepts; with a state it accepts what a handler
  of that state accepts and otherwise what a fallback accepts. A returned \<open>END\<close> removes the
  state, any other returned value replaces it, and a handler that raises leaves it as it
  was; the library logs the exception and goes on with the next update.
\<close>

definition filters_TEXT :: "update \<Rightarrow> bool" where
  "filters_TEXT u = (message_text u \<noteq> [])"

definition filters_COMMAND :: "update \<Rightarrow> bool" where
  "filters_COMMAND u = (command u \<noteq> None)"

definition filters_Regex :: "string \<Rightarrow> update \<Rightarrow> bool" where
  \<comment> \<open>\<open>filters.Regex(rf"^{t}$")\<close> for a text \<open>t\<close> without regular-expression operators, as the
      three button texts are: \<open>re.search\<close> succeeds on \<open>t\<close> and on \<open>t\<close> followed by one newline\<close>
  "filters_Regex t u = (message_text u = t \<or> message_text u = t @ newline)"

definition CommandHandler :: "string \<Rightarrow> update \<Rightarrow> bool" where
  "CommandHandler name u = (command u = Some name)"

definition update_state :: "int \<times> int \<Rightarrow> handled \<Rightarrow> bot" where
  "update_state key h =
     (case h of
        (b, Inl ex) \<Rightarrow> b
      | (b, Inr None) \<Rightarrow> b
      | (b, Inr (Some new_state)) \<Rightarrow>
          (if new_state = END then b\<lparr>conversations := (conversations b)(key := None)\<rparr>
           else b\<lparr>conversations := (conversations b)(key \<mapsto> new_state)\<rparr>))"

definition conv_handler :: "env \<Rightarrow> save_outcome \<Rightarrow> update \<Rightarrow> bot \<Rightarrow> bot option" where
  \<comment> \<open>\<open>None\<close>: the \<open>ConversationHandler\<close> does not accept the update\<close>
  "conv_handler e sv u b =
     (let key = (effective_chat u, effective_user u)
      in case conversations b key of
           None \<Rightarrow>
             (if filters_TEXT u \<and> filters_Regex add_button u
              then Some (update_state key (add_user e u b))
              else if filters_TEXT u \<and> filters_Regex remove_button u
              then Some (update_state key (remove_user e u b))
              else None)
         | Some st \<Rightarrow>
             (if (st = AWAIT_USER_ID_ADD \<or> st = AWAIT_USER_ID_REMOVE)
                 \<and> filters_TEXT u \<and> \<not> filters_COMMAND u
              then Some (update_state key (handle_user_id_input e sv u b))
              else if CommandHandler ''cancel'' u
              then Some (update_state key (cancel u b))
              else None))"

definition process_update :: "env \<Rightarrow> save_outcome \<Rightarrow> update \<Rightarrow> bot \<Rightarrow> bot" where
  "process_update e sv u b =
     (case conv_handler e sv u b of
        Some b' \<Rightarrow> b'
      | None \<Rightarrow>
          (if filters_TEXT u \<and> \<not> filters_COMMAND u then fst (handle_buttons e u b)
           else if CommandHandler ''start'' u then fst (start e u b)
           else if filters_TEXT u \<and> filters_Regex main_button u then fst (get_result e u b)
           else b))"

text \<open>
  The life of the process: \<open>init_cache\<close> runs once, as the \<open>post_init\<close> hook, on the cache as
  the module creates it; after that the job queue runs \<open>update_cache\<close> with whatever the
  spreadsheet answers at that tick, and messages arrive, each with the outcome that a write
  of the users file would have while it is handled.
\<close>

datatype event = Tick cell_reader | Message update save_outcome

fun step :: "env \<Rightarrow> event \<Rightarrow> bot \<Rightarrow> bot" where
  "step e (Tick rd) b = b\<lparr>cell_cache := update_cache rd (cell_cache b)\<rparr>"
| "step e (Message u sv) b = process_update e sv u b"

definition startup :: "sheets \<Rightarrow> file_state \<Rightarrow> bot" where
  "startup gs f =
     \<lparr>users_file = f,
      cell_cache = init_cache gs initial_cache,
      chat_data = (\<lambda>c. None),
      conversations = (\<lambda>k. None),
      outbox = []\<rparr>"

definition run :: "env \<Rightarrow> event list \<Rightarrow> bot \<Rightarrow> bot" where
  "run e evs b = fold (step e) evs b"

section \<open>Concrete inputs\<close>

text \<open>
  A parser for the examples: plain decimal numerals with an optional minus sign, on which
  Python's \<open>int()\<close> gives the same number.
\<close>

definition digit_of :: "char \<Rightarrow> int option" where
  "digit_of ch =
     map_of [(CHR ''0'', 0), (CHR ''1'', 1), (CHR ''2'', 2), (CHR ''3'', 3), (CHR ''4'', 4),
             (CHR ''5'', 5), (CHR ''6'', 6), (CHR ''7'', 7), (CHR ''8'', 8), (CHR ''9'', 9)] ch"

fun digits :: "int \<Rightarrow> string \<Rightarrow> int option" where
  "digits acc [] = Some acc"
| "digits acc (ch # cs) =
     (case digit_of ch of None \<Rightarrow> None | Some d \<Rightarrow> digits (10 * acc + d) cs)"

definition decimal :: "string \<Rightarrow> int option" where
  "decimal s =
     (case s of
        [] \<Rightarrow> None
      | ch # cs \<Rightarrow>
          (if ch = CHR ''-'' then (if cs = [] then None else map_option uminus (digits 0 cs))
           else digits 0 s))"

definition env_ex :: env where
  \<comment> \<open>the administrator is 1\<close>
  "env_ex = \<lparr>ADMIN_ID = 1, py_int = decimal\<rparr>"

definition text_message :: "int \<Rightarrow> int \<Rightarrow> string \<Rightarrow> update" where
  "text_message c uid t =
     \<lparr>effective_chat = c, effective_user = uid, message_text = t, command = None\<rparr>"

definition command_message :: "int \<Rightarrow> int \<Rightarrow> string \<Rightarrow> update" where
  "command_message c uid name =
     \<lparr>effective_chat = c, effective_user = uid, message_text = ''/'' @ name,
      command = Some name\<rparr>"

definition sheets_ex :: sheets where
  \<comment> \<open>every worksheet exists, every phrase is found in row 10, column 1, every cell
      reads 100\<close>
  "sheets_ex =
     \<lparr>spreadsheet_opens = True,
      worksheet_named = (\<lambda>name. Some (Worksheet name)),
      find_phrase = (\<lambda>sh phrase. Cell 10 1),
      read_cell = (\<lambda>sh p. Inr (Some ''100''))\<rparr>"

definition bot_ex :: bot where
  \<comment> \<open>the bot after start-up, with no users file on disk\<close>
  "bot_ex = startup sheets_ex Absent"

definition cache_ex :: "metric_key \<Rightarrow> entry" where
  \<comment> \<open>the cache after start-up against \<open>sheets_ex\<close>: all three keys resolved, each with
      the value 100\<close>
  "cache_ex = init_cache sheets_ex initial_cache"

definition reader_income_down :: cell_reader where
  \<comment> \<open>a tick at which reading the first sheet raises and every other cell reads 200\<close>
  "reader_income_down =
     (\<lambda>sh p. if sh = Worksheet (sheet_name (snd (SHEET_CONFIG ! 0))) then Inl APIError
             else Inr (Some ''200''))"

definition reader_200 :: cell_reader where
  "reader_200 = (\<lambda>sh p. Inr (Some ''200''))"

definition reader_blank :: cell_reader where
  \<comment> \<open>a tick at which every cell is empty: the reader returns the empty string\<close>
  "reader_blank = (\<lambda>sh p. Inr (Some []))"

definition bot_awaiting_add :: bot where
  \<comment> \<open>the administrator, user 1, has pressed the add button in chat 1\<close>
  "bot_awaiting_add = process_update env_ex Saved (text_message 1 1 add_button) bot_ex"

definition bot_awaiting_remove :: bot where
  \<comment> \<open>the users file lists 42, and the administrator has pressed the remove button\<close>
  "bot_awaiting_remove =
     process_update env_ex Saved (text_message 1 1 remove_button)
       (bot_ex\<lparr>users_file := Json (Some 1) (Some [42])\<rparr>)"

definition bot_after_cancel :: bot where
  \<comment> \<open>the administrator has pressed the add button and then sent the command cancel\<close>
  "bot_after_cancel =
     process_update env_ex Saved (command_message 1 1 ''cancel'') bot_awaiting_add"

definition add_then_submit :: "env \<Rightarrow> save_outcome \<Rightarrow> update \<Rightarrow> update \<Rightarrow> bot \<Rightarrow> handled" where
  \<comment> \<open>the add button is pressed (message \<open>t\<close>) and then identity text \<open>u\<close> is submitted;
      \<open>sv\<close> is the outcome of the write, should there be one\<close>
  "add_then_submit e sv t u b = handle_user_id_input e sv u (fst (add_user e t b))"

section \<open>Facts used throughout\<close>

lemma button_texts_differ:
  "add_button \<noteq> remove_button" "remove_button \<noteq> add_button"
  "add_button \<noteq> main_button" "remove_button \<noteq> main_button"
  "add_button \<noteq> []" "remove_button \<noteq> []" "main_button \<noteq> []"
  "add_button \<noteq> remove_button @ newline" "remove_button \<noteq> add_button @ newline"
  by (simp_all add: add_button_def remove_button_def main_button_def newline_def)

lemmas dispatch_defs =
  process_update_def conv_handler_def update_state_def filters_TEXT_def filters_COMMAND_def
  filters_Regex_def CommandHandler_def

lemmas example_defs = env_ex_def text_message_def command_message_def bot_ex_def startup_def

lemma load_users_simps [simp]:
  "load_users e Absent = \<lparr>admin_id = ADMIN_ID e, allowed_users = []\<rparr>"
  "load_users e Unreadable = \<lparr>admin_id = ADMIN_ID e, allowed_users = []\<rparr>"
  "load_users e (Json (Some a) (Some l)) = \<lparr>admin_id = a, allowed_users = l\<rparr>"
  by (simp_all add: load_users_def)

lemma decimal_examples:
  "decimal ''5'' = Some 5" "decimal ''42'' = Some 42" "decimal ''abc'' = None"
  by (simp_all add: decimal_def digit_of_def)

section \<open>Who can start an add or a remove\<close>

text \<open>
  Claim C1: a conversation enters the state awaiting an identity to add or to remove only
  when the administrator pressed the corresponding button; no message from anyone else ever
  leaves a conversation in one of these two states.

  The code does not keep this. The administrator test is in \<open>handle_buttons\<close>, which
  \<open>main\<close> registers after the \<open>ConversationHandler\<close>; the entry points of the
  \<open>ConversationHandler\<close> accept the two button texts first and call \<open>add_user\<close> and
  \<open>remove_user\<close> directly, and neither looks at the sender. Below, the administrator is 1
  and user 5, who is on no list, sends the text of the add button in a fresh chat: the
  conversation of user 5 is then awaiting an identity to add (the same with the remove
  button), and when user 5 sends \<open>5\<close> next, the users file lists 5 as an allowed user.
\<close>

theorem C1_non_admin_enters_awaiting_state:
  "effective_user (text_message 5 5 add_button) \<noteq> admin_id (load_users env_ex (users_file bot_ex))
   \<and> conversations bot_ex (5, 5) = None
   \<and> conversations (process_update env_ex Saved (text_message 5 5 add_button) bot_ex) (5, 5)
       = Some AWAIT_USER_ID_ADD
   \<and> chat_data (process_update env_ex Saved (text_message 5 5 add_button) bot_ex) 5
       = Some AWAIT_USER_ID_ADD
   \<and> conversations (process_update env_ex Saved (text_message 5 5 remove_button) bot_ex) (5, 5)
       = Some AWAIT_USER_ID_REMOVE
   \<and> users_file (run env_ex [Message (text_message 5 5 add_button) Saved,
                              Message (text_message 5 5 ''5'') Saved] bot_ex)
       = Json (Some 1) (Some [5])"
  by (simp add: dispatch_defs example_defs button_texts_differ add_user_def remove_user_def
      reply_text_def Let_def AWAIT_USER_ID_ADD_def AWAIT_USER_ID_REMOVE_def END_def
      run_def handle_user_id_input_def process_user_id_def decimal_examples save_users_def
      del_current_state_def)

section \<open>The value cache: what a refresh cycle changes\<close>

lemma keys_SHEET_CONFIG: "map fst SHEET_CONFIG = [income, consumption, cash]"
  by (simp add: SHEET_CONFIG_def)

lemma keys_distinct: "distinct (map fst SHEET_CONFIG)"
  by (simp add: SHEET_CONFIG_def)

lemma update_keys_location:
  "pos (fst (update_keys rd keys c) k) = pos (c k)
   \<and> sheet (fst (update_keys rd keys c) k) = sheet (c k)"
  by (induction keys arbitrary: c) (auto split: option.splits sum.splits)

lemma update_keys_other:
  "k \<notin> set keys \<Longrightarrow> fst (update_keys rd keys c) k = c k"
  by (induction keys arbitrary: c) (auto split: option.splits sum.splits)

lemma update_keys_append:
  "snd (update_keys rd ks1 c) = None \<Longrightarrow>
   update_keys rd (ks1 @ ks2) c = update_keys rd ks2 (fst (update_keys rd ks1 c))"
  by (induction ks1 arbitrary: c) (auto split: option.splits sum.splits)

lemma update_keys_read:
  assumes "pos (c k) = Some p" and "sheet (c k) = Some sh" and "rd sh p = Inr v"
      and "k \<notin> set ks"
  shows "cell_value (fst (update_keys rd (k # ks) c) k) = v"
  using assms by (simp add: update_keys_other)

lemma update_keys_failed:
  assumes "pos (c k) = Some p" and "sheet (c k) = Some sh" and "rd sh p = Inl ex"
  shows "cell_value (fst (update_keys rd ks c) k) = cell_value (c k)"
  using assms
proof (induction ks arbitrary: c)
  case Nil
  then show ?case by simp
next
  case (Cons a ks)
  show ?case
  proof (cases "a = k")
    case True
    with Cons.prems show ?thesis by simp
  next
    case False
    have keep: "cell_value (fst (update_keys rd ks (c(a := (c a)\<lparr>cell_value := v\<rparr>))) k)
                = cell_value (c k)" for v
    proof -
      let ?c = "c(a := (c a)\<lparr>cell_value := v\<rparr>)"
      have "pos (?c k) = Some p" "sheet (?c k) = Some sh"
        using Cons.prems False by simp_all
      then have "cell_value (fst (update_keys rd ks ?c) k) = cell_value (?c k)"
        using Cons.IH [of ?c] Cons.prems(3) by blast
      with False show ?thesis by simp
    qed
    show ?thesis
      using Cons.IH [of c] Cons.prems keep
      by (auto split: option.splits sum.splits)
  qed
qed

lemma cache_ex_entries:
  "cache_ex income =
     \<lparr>sheet = Some (Worksheet (sheet_name (snd (SHEET_CONFIG ! 0)))), pos = Some (10, 2),
      cell_value = Some ''100''\<rparr>"
  "cache_ex consumption =
     \<lparr>sheet = Some (Worksheet (sheet_name (snd (SHEET_CONFIG ! 1)))), pos = Some (10, 2),
      cell_value = Some ''100''\<rparr>"
  "cache_ex cash =
     \<lparr>sheet = Some (Worksheet (sheet_name (snd (SHEET_CONFIG ! 2)))), pos = Some (10, 2),
      cell_value = Some ''100''\<rparr>"
  by (simp_all add: cache_ex_def init_cache_def sheets_ex_def init_key_def SHEET_CONFIG_def
      initial_cache_def)

lemma sheet_names_differ:
  "sheet_name (snd (SHEET_CONFIG ! Suc 0)) \<noteq> sheet_name (snd (SHEET_CONFIG ! 0))"
  "sheet_name (snd (SHEET_CONFIG ! 2)) \<noteq> sheet_name (snd (SHEET_CONFIG ! 0))"
  by (simp_all add: SHEET_CONFIG_def)

text \<open>
  Claim C3: refresh failures are isolated per key; when the read for one key raises, every
  other key whose location is resolved still has its value updated in that same cycle.

  The code does not keep this. \<open>update_cache\<close> has one \<open>try\<close> around the whole loop, so the
  first read that raises ends the cycle (\<open>init_cache\<close>, next to it, has its \<open>try\<close> inside the
  loop and does isolate the keys). Below, all three keys are resolved with the value 100;
  at the tick the read for \<open>income\<close>, the first key, raises, and the reads for
  \<open>consumption\<close> and \<open>cash\<close> would return 200: after the cycle both still hold 100. At a
  tick where no read raises, \<open>consumption\<close> holds 200.
\<close>

theorem C3_failed_read_stops_cycle:
  "pos (cache_ex consumption) = Some (10, 2)
   \<and> sheet (cache_ex consumption) = Some (Worksheet (sheet_name (snd (SHEET_CONFIG ! 1))))
   \<and> reader_income_down (Worksheet (sheet_name (snd (SHEET_CONFIG ! 0)))) (10, 2) = Inl APIError
   \<and> reader_income_down (Worksheet (sheet_name (snd (SHEET_CONFIG ! 1)))) (10, 2) = Inr (Some ''200'')
   \<and> reader_income_down (Worksheet (sheet_name (snd (SHEET_CONFIG ! 2)))) (10, 2) = Inr (Some ''200'')
   \<and> cell_value (update_cache reader_income_down cache_ex consumption) = Some ''100''
   \<and> cell_value (update_cache reader_income_down cache_ex cash) = Some ''100''
   \<and> cell_value (update_cache reader_200 cache_ex consumption) = Some ''200''"
  by (simp add: update_cache_def keys_SHEET_CONFIG cache_ex_entries reader_income_down_def
      reader_200_def sheet_names_differ)

section \<open>The value cache: where the location of an entry comes from\<close>

lemma init_key_other: "k \<noteq> fst kc \<Longrightarrow> init_key gs kc c k = c k"
  by (cases kc) (simp add: init_key_def split: option.splits find_result.splits sum.splits)

lemma init_key_own_entry:
  "c k = c' k \<Longrightarrow> init_key gs (k, cfg) c k = init_key gs (k, cfg) c' k"
  by (simp add: init_key_def split: option.splits find_result.splits sum.splits)

lemma fold_init_key_other:
  "k \<notin> set (map fst kcs) \<Longrightarrow> fold (init_key gs) kcs c k = c k"
  by (induction kcs arbitrary: c) (simp_all add: init_key_other)

lemma fold_init_key_once:
  assumes "distinct (map fst (pre @ (k, cfg) # post))"
  shows "fold (init_key gs) (pre @ (k, cfg) # post) c k = init_key gs (k, cfg) c k"
proof -
  from assms have "k \<notin> set (map fst pre)" and "k \<notin> set (map fst post)"
    by simp_all
  then have pre: "fold (init_key gs) pre c k = c k"
    and post: "fold (init_key gs) post c' k = c' k" for c'
    by (simp_all add: fold_init_key_other)
  have "init_key gs (k, cfg) (fold (init_key gs) pre c) k = init_key gs (k, cfg) c k"
    using pre by (rule init_key_own_entry)
  then show ?thesis
    by (simp add: post)
qed

lemma init_cache_once:
  assumes "(k, cfg) \<in> set SHEET_CONFIG" and "spreadsheet_opens gs"
  shows "init_cache gs c k = init_key gs (k, cfg) c k"
proof -
  from split_list [OF assms(1)] obtain pre post where sp: "SHEET_CONFIG = pre @ (k, cfg) # post"
    by blast
  have "distinct (map fst (pre @ (k, cfg) # post))"
    using keys_distinct unfolding sp .
  then have "fold (init_key gs) (pre @ (k, cfg) # post) c k = init_key gs (k, cfg) c k"
    by (rule fold_init_key_once)
  then have "fold (init_key gs) SHEET_CONFIG c k = init_key gs (k, cfg) c k"
    unfolding sp .
  with assms(2) show ?thesis
    unfolding init_cache_def by simp
qed

lemma handlers_keep_cache:
  "cell_cache (reply_text u t kb b) = cell_cache b"
  "cell_cache (del_current_state u b) = cell_cache b"
  "cell_cache (fst (check_access e u b)) = cell_cache b"
  "cell_cache (fst (add_user e u b)) = cell_cache b"
  "cell_cache (fst (remove_user e u b)) = cell_cache b"
  "cell_cache (fst (cancel u b)) = cell_cache b"
  by (simp_all add: reply_text_def del_current_state_def check_access_def
      add_user_def remove_user_def cancel_def Let_def)

lemma start_keeps_cache: "cell_cache (fst (start e u b)) = cell_cache b"
  using handlers_keep_cache(3) [of e u b]
  by (cases "check_access e u b") (auto simp: start_def handlers_keep_cache(1) split: bool.splits)

lemma get_result_keeps_cache: "cell_cache (fst (get_result e u b)) = cell_cache b"
  using handlers_keep_cache(3) [of e u b]
  by (cases "check_access e u b") (auto simp: get_result_def handlers_keep_cache(1) split: bool.splits)

lemma process_user_id_keeps_cache: "cell_cache (fst (process_user_id e sv u n b)) = cell_cache b"
  by (simp add: process_user_id_def Let_def handlers_keep_cache(1,2))

lemma handle_user_id_input_keeps_cache:
  "cell_cache (fst (handle_user_id_input e sv u b)) = cell_cache b"
  by (simp add: handle_user_id_input_def handlers_keep_cache(1) process_user_id_keeps_cache
      split: option.splits)

lemma handle_buttons_keeps_cache: "cell_cache (fst (handle_buttons e u b)) = cell_cache b"
  by (simp add: handle_buttons_def Let_def handlers_keep_cache get_result_keeps_cache)

lemma update_state_keeps_cache: "cell_cache (update_state key h) = cell_cache (fst h)"
  by (cases h) (auto simp: update_state_def split: sum.splits option.splits)

lemma conv_handler_keeps_cache:
  "conv_handler e sv u b = Some b' \<Longrightarrow> cell_cache b' = cell_cache b"
  by (auto simp: conv_handler_def Let_def update_state_keeps_cache handlers_keep_cache
      handle_user_id_input_keeps_cache split: option.splits if_splits)

lemma process_update_keeps_cache: "cell_cache (process_update e sv u b) = cell_cache b"
  by (cases "conv_handler e sv u b")
     (simp_all add: process_update_def conv_handler_keeps_cache handle_buttons_keeps_cache
       start_keeps_cache get_result_keeps_cache)

lemma step_location:
  "pos (cell_cache (step e ev b) k) = pos (cell_cache b k)
   \<and> sheet (cell_cache (step e ev b) k) = sheet (cell_cache b k)"
  by (cases ev) (simp_all add: update_cache_def update_keys_location process_update_keeps_cache)

lemma run_location:
  "pos (cell_cache (run e evs b) k) = pos (cell_cache b k)
   \<and> sheet (cell_cache (run e evs b) k) = sheet (cell_cache b k)"
  unfolding run_def
  by (induction evs arbitrary: b) (simp_all add: step_location)

text \<open>
  Claim C7: for every key, the location of its cache entry is set at most once, by the
  first successful resolution, and never cleared or changed by any later operation; the
  refresh step only updates the value and leaves the position and the sheet as they are.

  The entry of a key after start-up is what the one step of \<open>init_cache\<close> for that key made of
  the unset entry (no step of another key touches it), and that step writes a location
  only when the worksheet is there, the phrase is found and the cell is read. A refresh
  cycle leaves position and sheet of every entry unchanged, and so does every sequence of
  ticks and messages after start-up, whatever the spreadsheet answers and whatever is sent.
\<close>

theorem C7_location_fixed_after_startup:
  assumes "(k, cfg) \<in> set SHEET_CONFIG"
  shows "init_cache gs initial_cache k
           = (if spreadsheet_opens gs then init_key gs (k, cfg) initial_cache k
              else initial_cache k)
         \<and> pos (update_cache rd c k) = pos (c k)
         \<and> sheet (update_cache rd c k) = sheet (c k)
         \<and> pos (cell_cache (run e evs (startup gs f)) k) = pos (init_cache gs initial_cache k)
         \<and> sheet (cell_cache (run e evs (startup gs f)) k) = sheet (init_cache gs initial_cache k)"
proof -
  have "init_cache gs initial_cache k
          = (if spreadsheet_opens gs then init_key gs (k, cfg) initial_cache k
             else initial_cache k)"
    using init_cache_once [OF assms, of gs initial_cache] by (simp add: init_cache_def)
  moreover have "pos (update_cache rd c k) = pos (c k)" "sheet (update_cache rd c k) = sheet (c k)"
    by (simp_all add: update_cache_def update_keys_location)
  moreover have "cell_cache (startup gs f) = init_cache gs initial_cache"
    by (simp add: startup_def)
  then have "pos (cell_cache (run e evs (startup gs f)) k) = pos (init_cache gs initial_cache k)"
    "sheet (cell_cache (run e evs (startup gs f)) k) = sheet (init_cache gs initial_cache k)"
    using run_location [of e evs "startup gs f" k] by simp_all
  ultimately show ?thesis by blast
qed

theorem C7_location_fixed_after_startup_witness:
  "(income, snd (SHEET_CONFIG ! 0)) \<in> set SHEET_CONFIG
   \<and> pos (cell_cache (run env_ex [Tick reader_200, Message (text_message 1 1 main_button) Saved,
                                  Tick reader_income_down] (startup sheets_ex Absent)) income)
       = Some (10, 2)
   \<and> sheet (cell_cache (run env_ex [Tick reader_200, Message (text_message 1 1 main_button) Saved,
                                  Tick reader_income_down] (startup sheets_ex Absent)) income)
       = Some (Worksheet (sheet_name (snd (SHEET_CONFIG ! 0))))"
proof -
  have m: "(income, snd (SHEET_CONFIG ! 0)) \<in> set SHEET_CONFIG"
    by (simp add: SHEET_CONFIG_def)
  from C7_location_fixed_after_startup [OF m, of sheets_ex _ _ env_ex _ Absent]
    cache_ex_entries(1) m
  show ?thesis
    unfolding cache_ex_def by simp
qed

section \<open>The value cache: what a query reports after a refresh\<close>

lemma response_nth:
  assumes "i < length SHEET_CONFIG" and "SHEET_CONFIG ! i = (k, cfg)"
  shows "response c ! i = response_template (title cfg) (value_or (cell_value (c k)) na_value)"
  using assms by (simp add: response_def)

lemma update_cache_read:
  assumes i: "i < length SHEET_CONFIG" and ki: "SHEET_CONFIG ! i = (k, cfg)"
      and res: "pos (c k) = Some p" "sheet (c k) = Some sh"
      and before: "snd (update_keys rd (take i (map fst SHEET_CONFIG)) c) = None"
      and rd: "rd sh p = Inr v"
  shows "cell_value (update_cache rd c k) = v"
proof -
  let ?ks = "map fst SHEET_CONFIG"
  have k: "?ks ! i = k"
    using i ki by simp
  have split: "?ks = take i ?ks @ k # drop (Suc i) ?ks"
    using id_take_nth_drop [of i ?ks] i k by simp
  have d: "distinct (take i ?ks @ k # drop (Suc i) ?ks)"
    using keys_distinct split by simp
  then have notin: "k \<notin> set (take i ?ks)" "k \<notin> set (drop (Suc i) ?ks)"
    by simp_all
  let ?c1 = "fst (update_keys rd (take i ?ks) c)"
  have c1: "?c1 k = c k"
    using notin(1) by (rule update_keys_other)
  have "update_keys rd ?ks c = update_keys rd (k # drop (Suc i) ?ks) ?c1"
    using update_keys_append [OF before, of "k # drop (Suc i) ?ks"] split by simp
  moreover have "cell_value (fst (update_keys rd (k # drop (Suc i) ?ks) ?c1) k) = v"
    using res rd notin(2) c1 by (intro update_keys_read [where p = p and sh = sh]) simp_all
  ultimately show ?thesis
    by (simp add: update_cache_def)
qed

lemma get_result_reports_response:
  assumes "snd (check_access e u b) = True"
  shows "outbox (fst (get_result e u b))
           = outbox b @ [\<lparr>chat = effective_chat u, body = join newline (response (cell_cache b)),
                          markup = Some (create_keyboard e (effective_user u) b)\<rparr>]"
  using assms
  by (auto simp: get_result_def check_access_def reply_text_def Let_def split: if_splits)

lemma na_value_nonempty: "na_value \<noteq> []"
  by (simp add: na_value_def)

text \<open>
  Claim C5: for every resolved key and every string \<open>v\<close> returned by the reader, a
  successful refresh followed by a query yields exactly \<open>v\<close> in the reported line of that
  key; and if the refresh read fails, the query reports what it reported before.

  As stated the claim fails for the empty string: \<open>get_result\<close> formats \<open>value or na_value\<close>,
  so an empty cell is reported as the placeholder, not as the empty string. Below, the
  reader returns the empty string for \<open>income\<close>, the cache stores it, and the reported line
  is the one with the placeholder.
\<close>

theorem C5_empty_value_counterexample:
  "pos (cache_ex income) = Some (10, 2)
   \<and> sheet (cache_ex income) = Some (Worksheet (sheet_name (snd (SHEET_CONFIG ! 0))))
   \<and> reader_blank (Worksheet (sheet_name (snd (SHEET_CONFIG ! 0)))) (10, 2) = Inr (Some [])
   \<and> cell_value (update_cache reader_blank cache_ex income) = Some []
   \<and> response (update_cache reader_blank cache_ex) ! 0
       = response_template (title (snd (SHEET_CONFIG ! 0))) na_value
   \<and> response (update_cache reader_blank cache_ex) ! 0
       \<noteq> response_template (title (snd (SHEET_CONFIG ! 0))) []"
proof -
  have v: "cell_value (update_cache reader_blank cache_ex income) = Some []"
    by (simp add: update_cache_def keys_SHEET_CONFIG cache_ex_entries reader_blank_def)
  have i: "0 < length SHEET_CONFIG" "SHEET_CONFIG ! 0 = (income, snd (SHEET_CONFIG ! 0))"
    by (simp_all add: SHEET_CONFIG_def)
  have r: "response (update_cache reader_blank cache_ex) ! 0
       = response_template (title (snd (SHEET_CONFIG ! 0))) na_value"
    by (simp add: response_nth [OF i] v value_or_def)
  have "response_template t na_value \<noteq> response_template t []" for t
    by (simp add: response_template_def na_value_nonempty)
  with r v show ?thesis
    by (simp add: cache_ex_entries reader_blank_def)
qed

text \<open>
  Claim C5 as amended: for every resolved key, if the refresh cycle reaches the key (no read
  for an earlier key of the cycle raised) and the reader returns a non-empty string \<open>v\<close>,
  the line that \<open>get_result\<close> reports for the key afterwards is the template filled with the
  key's title and exactly \<open>v\<close>; if the reader returns the empty string or no value, the line
  shows the placeholder; and if the read for the key raises, the line is the one reported
  before the cycle. The line of the key at index \<open>i\<close> of \<open>SHEET_CONFIG\<close> is element \<open>i\<close> of the
  list \<open>response\<close>, whose lines \<open>get_result\<close> joins and sends.
\<close>

theorem C5_refresh_then_get:
  assumes "i < length SHEET_CONFIG" and "SHEET_CONFIG ! i = (k, cfg)"
      and "pos (c k) = Some p" and "sheet (c k) = Some sh"
  shows "(snd (update_keys rd (take i (map fst SHEET_CONFIG)) c) = None
            \<and> rd sh p = Inr (Some v) \<and> v \<noteq> []
          \<longrightarrow> response (update_cache rd c) ! i = response_template (title cfg) v)
       \<and> (snd (update_keys rd (take i (map fst SHEET_CONFIG)) c) = None
            \<and> (rd sh p = Inr (Some []) \<or> rd sh p = Inr None)
          \<longrightarrow> response (update_cache rd c) ! i = response_template (title cfg) na_value)
       \<and> (rd sh p = Inl ex
          \<longrightarrow> response (update_cache rd c) ! i = response c ! i)"
proof (intro conjI impI)
  assume a: "snd (update_keys rd (take i (map fst SHEET_CONFIG)) c) = None
             \<and> rd sh p = Inr (Some v) \<and> v \<noteq> []"
  then have "cell_value (update_cache rd c k) = Some v"
    using update_cache_read [where c = c and rd = rd and v = "Some v", OF assms] by simp
  with a show "response (update_cache rd c) ! i = response_template (title cfg) v"
    by (simp add: response_nth [OF assms(1,2)] value_or_def)
next
  assume a: "snd (update_keys rd (take i (map fst SHEET_CONFIG)) c) = None
             \<and> (rd sh p = Inr (Some []) \<or> rd sh p = Inr None)"
  then have "cell_value (update_cache rd c k) = Some [] \<or> cell_value (update_cache rd c k) = None"
    using update_cache_read [where c = c and rd = rd and v = "Some []", OF assms]
      update_cache_read [where c = c and rd = rd and v = None, OF assms]
    by auto
  then show "response (update_cache rd c) ! i = response_template (title cfg) na_value"
    by (auto simp: response_nth [OF assms(1,2)] value_or_def)
next
  assume "rd sh p = Inl ex"
  then have "cell_value (update_cache rd c k) = cell_value (c k)"
    unfolding update_cache_def using assms(3,4) by (intro update_keys_failed)
  then show "response (update_cache rd c) ! i = response c ! i"
    by (simp add: response_nth [OF assms(1,2)])
qed

theorem C5_refresh_then_get_witness:
  "1 < length SHEET_CONFIG \<and> SHEET_CONFIG ! 1 = (consumption, snd (SHEET_CONFIG ! 1))
   \<and> pos (cache_ex consumption) = Some (10, 2)
   \<and> sheet (cache_ex consumption) = Some (Worksheet (sheet_name (snd (SHEET_CONFIG ! 1))))
   \<and> snd (update_keys reader_200 (take 1 (map fst SHEET_CONFIG)) cache_ex) = None
   \<and> reader_200 (Worksheet (sheet_name (snd (SHEET_CONFIG ! 1)))) (10, 2) = Inr (Some ''200'')
   \<and> ''200'' \<noteq> []
   \<and> response (update_cache reader_200 cache_ex) ! 1
       = response_template (title (snd (SHEET_CONFIG ! 1))) ''200''
   \<and> 0 < length SHEET_CONFIG \<and> SHEET_CONFIG ! 0 = (income, snd (SHEET_CONFIG ! 0))
   \<and> pos (cache_ex income) = Some (10, 2)
   \<and> sheet (cache_ex income) = Some (Worksheet (sheet_name (snd (SHEET_CONFIG ! 0))))
   \<and> reader_income_down (Worksheet (sheet_name (snd (SHEET_CONFIG ! 0)))) (10, 2) = Inl APIError
   \<and> response (update_cache reader_income_down cache_ex) ! 0 = response cache_ex ! 0
   \<and> response cache_ex ! 0 = response_template (title (snd (SHEET_CONFIG ! 0))) ''100''"
proof -
  have i1: "1 < length SHEET_CONFIG" "SHEET_CONFIG ! 1 = (consumption, snd (SHEET_CONFIG ! 1))"
    and i0: "0 < length SHEET_CONFIG" "SHEET_CONFIG ! 0 = (income, snd (SHEET_CONFIG ! 0))"
    by (simp_all add: SHEET_CONFIG_def)
  have r1: "pos (cache_ex consumption) = Some (10, 2)"
    "sheet (cache_ex consumption) = Some (Worksheet (sheet_name (snd (SHEET_CONFIG ! 1))))"
    and r0: "pos (cache_ex income) = Some (10, 2)"
    "sheet (cache_ex income) = Some (Worksheet (sheet_name (snd (SHEET_CONFIG ! 0))))"
    by (simp_all add: cache_ex_entries)
  have b: "snd (update_keys reader_200 (take 1 (map fst SHEET_CONFIG)) cache_ex) = None"
    by (simp add: keys_SHEET_CONFIG cache_ex_entries reader_200_def)
  have rd1: "reader_200 (Worksheet (sheet_name (snd (SHEET_CONFIG ! 1)))) (10, 2) = Inr (Some ''200'')"
    by (simp add: reader_200_def)
  have rd0: "reader_income_down (Worksheet (sheet_name (snd (SHEET_CONFIG ! 0)))) (10, 2) = Inl APIError"
    by (simp add: reader_income_down_def)
  have old: "response cache_ex ! 0 = response_template (title (snd (SHEET_CONFIG ! 0))) ''100''"
    by (simp add: response_nth [OF i0] cache_ex_entries value_or_def)
  from C5_refresh_then_get [where c = cache_ex and rd = reader_200 and v = "''200''", OF i1 r1]
    b rd1
  have s1: "response (update_cache reader_200 cache_ex) ! 1
       = response_template (title (snd (SHEET_CONFIG ! 1))) ''200''"
    by simp
  from C5_refresh_then_get [where c = cache_ex and rd = reader_income_down and ex = APIError,
      OF i0 r0] rd0
  have s0: "response (update_cache reader_income_down cache_ex) ! 0 = response cache_ex ! 0"
    by blast
  show ?thesis
    using i1 i0 r1 r0 b rd1 rd0 old s1 s0 by simp
qed

section \<open>The conversation: cancelling\<close>

lemma bot_awaiting_add_fields:
  "users_file bot_awaiting_add = Absent"
  "chat_data bot_awaiting_add 1 = Some AWAIT_USER_ID_ADD"
  "conversations bot_awaiting_add (1, 1) = Some AWAIT_USER_ID_ADD"
  "outbox bot_awaiting_add =
     [\<lparr>chat = 1, body = users_list_empty @ newline @ '' '' @ add_user_message,
       markup = Some [[main_button], [add_button, remove_button]]\<rparr>]"
  by (simp_all add: bot_awaiting_add_def dispatch_defs example_defs button_texts_differ
      add_user_def reply_text_def Let_def AWAIT_USER_ID_ADD_def END_def create_keyboard_def
      users_list_def)

lemma bot_awaiting_remove_fields:
  "users_file bot_awaiting_remove = Json (Some 1) (Some [42])"
  "chat_data bot_awaiting_remove 1 = Some AWAIT_USER_ID_REMOVE"
  "conversations bot_awaiting_remove (1, 1) = Some AWAIT_USER_ID_REMOVE"
  by (simp_all add: bot_awaiting_remove_def dispatch_defs example_defs button_texts_differ
      remove_user_def reply_text_def Let_def AWAIT_USER_ID_REMOVE_def END_def)

lemma states_differ:
  "AWAIT_USER_ID_ADD \<noteq> AWAIT_USER_ID_REMOVE" "AWAIT_USER_ID_REMOVE \<noteq> AWAIT_USER_ID_ADD"
  "AWAIT_USER_ID_ADD \<noteq> END" "AWAIT_USER_ID_REMOVE \<noteq> END"
  "END \<noteq> AWAIT_USER_ID_ADD" "END \<noteq> AWAIT_USER_ID_REMOVE"
  by (simp_all add: AWAIT_USER_ID_ADD_def AWAIT_USER_ID_REMOVE_def END_def)

text \<open>
  Claim C4: \<open>cancel\<close>, from any state, always completes with the conversation state reset,
  sends the cancellation acknowledgement and never changes the access list.

  The code does not keep this. \<open>cancel\<close> passes \<open>reply_markup=keyboard\<close>, and no variable
  \<open>keyboard\<close> exists there (the other handlers compute it with \<open>create_keyboard\<close> first), so
  the call raises \<open>NameError\<close> after the \<open>current_state\<close> slot has been deleted: no
  acknowledgement is sent, \<open>END\<close> is never returned, and the \<open>ConversationHandler\<close> keeps
  the conversation in its awaiting state. Below, the administrator has pressed the add
  button and then sends the command \<open>cancel\<close>. The access list is indeed left alone.
  With no conversation under way the command reaches no handler at all (\<open>cancel\<close> is only a
  fallback of the \<open>ConversationHandler\<close>), and the bot does nothing.
\<close>

theorem C4_cancel_raises:
  "conversations bot_awaiting_add (1, 1) = Some AWAIT_USER_ID_ADD
   \<and> snd (cancel (command_message 1 1 ''cancel'') bot_awaiting_add) = Inl NameError
   \<and> outbox (process_update env_ex Saved (command_message 1 1 ''cancel'') bot_awaiting_add)
       = outbox bot_awaiting_add
   \<and> conversations (process_update env_ex Saved (command_message 1 1 ''cancel'') bot_awaiting_add) (1, 1)
       = Some AWAIT_USER_ID_ADD
   \<and> chat_data (process_update env_ex Saved (command_message 1 1 ''cancel'') bot_awaiting_add) 1
       = None
   \<and> users_file (process_update env_ex Saved (command_message 1 1 ''cancel'') bot_awaiting_add)
       = users_file bot_awaiting_add
   \<and> conversations bot_ex (1, 1) = None
   \<and> process_update env_ex Saved (command_message 1 1 ''cancel'') bot_ex = bot_ex"
proof -
  have awaiting:
    "conversations bot_awaiting_add (1, 1) = Some AWAIT_USER_ID_ADD
     \<and> snd (cancel (command_message 1 1 ''cancel'') bot_awaiting_add) = Inl NameError
     \<and> outbox (process_update env_ex Saved (command_message 1 1 ''cancel'') bot_awaiting_add)
         = outbox bot_awaiting_add
     \<and> conversations (process_update env_ex Saved (command_message 1 1 ''cancel'') bot_awaiting_add) (1, 1)
         = Some AWAIT_USER_ID_ADD
     \<and> chat_data (process_update env_ex Saved (command_message 1 1 ''cancel'') bot_awaiting_add) 1
         = None
     \<and> users_file (process_update env_ex Saved (command_message 1 1 ''cancel'') bot_awaiting_add)
         = users_file bot_awaiting_add"
    by (simp add: bot_awaiting_add_fields dispatch_defs command_message_def cancel_def
        del_current_state_def Let_def AWAIT_USER_ID_ADD_def AWAIT_USER_ID_REMOVE_def)
  have idle:
    "conversations bot_ex (1, 1) = None
     \<and> process_update env_ex Saved (command_message 1 1 ''cancel'') bot_ex = bot_ex"
    by (simp add: dispatch_defs example_defs add_button_def remove_button_def main_button_def
        newline_def)
  from awaiting idle show ?thesis
    by (intro conjI) (elim conjE, assumption)+
qed

section \<open>The conversation: a save that fails\<close>

text \<open>
  Claim C2: when the save of the access list fails during an add or a remove, the message
  sent to the administrator is not the success message.

  As stated the claim fails: \<open>save_users\<close> catches the exception of the write, logs it and
  returns nothing, and \<open>process_user_id\<close> sends the success message after it whatever
  happened. Below, the administrator submits 42 to add while the write fails and leaves no
  file: the reply is the success message for 42, the same as when the write succeeds.
\<close>

theorem C2_failed_save_reports_success_counterexample:
  "chat_data bot_awaiting_add 1 = Some AWAIT_USER_ID_ADD
   \<and> py_int env_ex (message_text (text_message 1 1 ''42'')) = Some 42
   \<and> 42 \<notin> set (allowed_users (load_users env_ex (users_file bot_awaiting_add)))
   \<and> outbox (fst (handle_user_id_input env_ex (SaveFailed Absent) (text_message 1 1 ''42'')
                    bot_awaiting_add))
       = outbox bot_awaiting_add @ [\<lparr>chat = 1, body = user_added 42, markup = None\<rparr>]
   \<and> outbox (fst (handle_user_id_input env_ex (SaveFailed Absent) (text_message 1 1 ''42'')
                    bot_awaiting_add))
       = outbox (fst (handle_user_id_input env_ex Saved (text_message 1 1 ''42'') bot_awaiting_add))
   \<and> users_file (fst (handle_user_id_input env_ex (SaveFailed Absent) (text_message 1 1 ''42'')
                    bot_awaiting_add))
       = Absent"
  by (simp add: handle_user_id_input_def process_user_id_def bot_awaiting_add_fields(1,2)
      env_ex_def text_message_def decimal_examples Let_def reply_text_def del_current_state_def
      save_users_def)

text \<open>
  Claim C2 as amended: when the write of \<open>save_users\<close> fails during an add of an identity
  not yet listed, or a remove of a listed one, the failure is logged inside \<open>save_users\<close>
  and not reported: the administrator is sent the success message of that action, the
  conversation ends, and the users file is whatever the failed write left.
\<close>

theorem C2_failed_save_still_reports_success:
  assumes "py_int e (message_text u) = Some n"
  shows "(chat_data b (effective_chat u) = Some AWAIT_USER_ID_ADD
            \<and> n \<notin> set (allowed_users (load_users e (users_file b)))
          \<longrightarrow> outbox (fst (handle_user_id_input e (SaveFailed f') u b))
                = outbox b @ [\<lparr>chat = effective_chat u, body = user_added n, markup = None\<rparr>]
              \<and> snd (handle_user_id_input e (SaveFailed f') u b) = Inr (Some END)
              \<and> chat_data (fst (handle_user_id_input e (SaveFailed f') u b)) (effective_chat u) = None
              \<and> users_file (fst (handle_user_id_input e (SaveFailed f') u b)) = f')
       \<and> (chat_data b (effective_chat u) = Some AWAIT_USER_ID_REMOVE
            \<and> n \<in> set (allowed_users (load_users e (users_file b)))
          \<longrightarrow> outbox (fst (handle_user_id_input e (SaveFailed f') u b))
                = outbox b @ [\<lparr>chat = effective_chat u, body = user_removed n, markup = None\<rparr>]
              \<and> snd (handle_user_id_input e (SaveFailed f') u b) = Inr (Some END)
              \<and> chat_data (fst (handle_user_id_input e (SaveFailed f') u b)) (effective_chat u) = None
              \<and> users_file (fst (handle_user_id_input e (SaveFailed f') u b)) = f')"
  using assms
  by (simp add: handle_user_id_input_def process_user_id_def Let_def reply_text_def
      del_current_state_def save_users_def states_differ)

theorem C2_failed_save_still_reports_success_witness:
  "py_int env_ex (message_text (text_message 1 1 ''42'')) = Some 42
   \<and> chat_data bot_awaiting_add (effective_chat (text_message 1 1 ''42'')) = Some AWAIT_USER_ID_ADD
   \<and> 42 \<notin> set (allowed_users (load_users env_ex (users_file bot_awaiting_add)))
   \<and> outbox (fst (handle_user_id_input env_ex (SaveFailed Unreadable) (text_message 1 1 ''42'')
                    bot_awaiting_add))
       = outbox bot_awaiting_add @ [\<lparr>chat = 1, body = user_added 42, markup = None\<rparr>]
   \<and> users_file (fst (handle_user_id_input env_ex (SaveFailed Unreadable) (text_message 1 1 ''42'')
                    bot_awaiting_add))
       = Unreadable
   \<and> chat_data bot_awaiting_remove (effective_chat (text_message 1 1 ''42'')) = Some AWAIT_USER_ID_REMOVE
   \<and> 42 \<in> set (allowed_users (load_users env_ex (users_file bot_awaiting_remove)))
   \<and> outbox (fst (handle_user_id_input env_ex (SaveFailed (Json (Some 1) (Some [42])))
                    (text_message 1 1 ''42'') bot_awaiting_remove))
       = outbox bot_awaiting_remove @ [\<lparr>chat = 1, body = user_removed 42, markup = None\<rparr>]
   \<and> users_file (fst (handle_user_id_input env_ex (SaveFailed (Json (Some 1) (Some [42])))
                    (text_message 1 1 ''42'') bot_awaiting_remove))
       = Json (Some 1) (Some [42])"
proof -
  have p: "py_int env_ex (message_text (text_message 1 1 ''42'')) = Some 42"
    by (simp add: env_ex_def text_message_def decimal_examples)
  have c: "effective_chat (text_message 1 1 ''42'') = 1"
    by (simp add: text_message_def)
  have a: "chat_data bot_awaiting_add 1 = Some AWAIT_USER_ID_ADD"
    "42 \<notin> set (allowed_users (load_users env_ex (users_file bot_awaiting_add)))"
    by (simp_all add: bot_awaiting_add_fields)
  have r: "chat_data bot_awaiting_remove 1 = Some AWAIT_USER_ID_REMOVE"
    "42 \<in> set (allowed_users (load_users env_ex (users_file bot_awaiting_remove)))"
    by (simp_all add: bot_awaiting_remove_fields)
  show ?thesis
    using C2_failed_save_still_reports_success [OF p, of bot_awaiting_add Unreadable]
      C2_failed_save_still_reports_success [OF p, of bot_awaiting_remove "Json (Some 1) (Some [42])"]
      p a r
    by (simp add: c)
qed

section \<open>The access check\<close>

text \<open>
  Claim C6: for every identity and every content of the access list, the access check
  admits the identity if and only if it is the administrator or a member of the allowed
  users, and the check reads the list anew on every call, so an identity removed from the
  allowed users is denied on its very next request.

  \<open>check_access\<close> decides from the users file as it is at the call, through \<open>load_users\<close>;
  nothing is cached between calls. So when a remove of a listed identity that is not the
  administrator has been written (the list holding each identity once, as the add step
  keeps it), the check that admitted the identity before the removal denies it after.
\<close>

theorem C6_check_access_reads_current_list:
  "snd (check_access e u b)
     = (effective_user u = admin_id (load_users e (users_file b))
        \<or> effective_user u \<in> set (allowed_users (load_users e (users_file b))))
   \<and> (chat_data b (effective_chat v) = Some AWAIT_USER_ID_REMOVE
        \<and> effective_user u \<in> set (allowed_users (load_users e (users_file b)))
        \<and> distinct (allowed_users (load_users e (users_file b)))
        \<and> effective_user u \<noteq> admin_id (load_users e (users_file b))
      \<longrightarrow> snd (check_access e u b)
          \<and> \<not> snd (check_access e u (fst (process_user_id e Saved v (effective_user u) b))))"
  by (simp add: check_access_def Let_def process_user_id_def states_differ save_users_def
      reply_text_def del_current_state_def)

theorem C6_check_access_reads_current_list_witness:
  "chat_data bot_awaiting_remove (effective_chat (text_message 1 1 ''42'')) = Some AWAIT_USER_ID_REMOVE
   \<and> effective_user (text_message 42 42 main_button)
        \<in> set (allowed_users (load_users env_ex (users_file bot_awaiting_remove)))
   \<and> distinct (allowed_users (load_users env_ex (users_file bot_awaiting_remove)))
   \<and> effective_user (text_message 42 42 main_button)
        \<noteq> admin_id (load_users env_ex (users_file bot_awaiting_remove))
   \<and> snd (check_access env_ex (text_message 42 42 main_button) bot_awaiting_remove)
   \<and> \<not> snd (check_access env_ex (text_message 42 42 main_button)
              (fst (process_user_id env_ex Saved (text_message 1 1 ''42'') 42 bot_awaiting_remove)))"
  using C6_check_access_reads_current_list [of env_ex "text_message 42 42 main_button"
      bot_awaiting_remove "text_message 1 1 ''42''"]
  by (simp add: bot_awaiting_remove_fields text_message_def)

section \<open>The conversation: submitting an identity\<close>

lemma invalid_input_dispatch:
  assumes "chat_data b (effective_chat u) = Some st"
      and "conversations b (effective_chat u, effective_user u) = Some st"
      and "st = AWAIT_USER_ID_ADD \<or> st = AWAIT_USER_ID_REMOVE"
      and "py_int e (message_text u) = None"
      and "message_text u \<noteq> []" and "command u = None"
  shows "process_update e sv u b = reply_text u invalid_id None b"
  using assms
  by (auto simp: dispatch_defs handle_user_id_input_def reply_text_def states_differ fun_upd_idem)

text \<open>
  Claim C8: for every conversation awaiting an identity to add or to remove and every input
  that does not parse as an integer, submitting the input sends the invalid-format message,
  leaves the conversation state unchanged (still awaiting the same action) and does not
  change the access list.

  The state of the conversation is the \<open>current_state\<close> slot that the add and remove
  buttons set. \<open>handle_user_id_input\<close> leaves the slot as it is and returns its value, which
  the \<open>ConversationHandler\<close> keeps as the state of the conversation.
\<close>

theorem C8_invalid_input_keeps_state:
  assumes "chat_data b (effective_chat u) = Some st"
      and "st = AWAIT_USER_ID_ADD \<or> st = AWAIT_USER_ID_REMOVE"
      and "py_int e (message_text u) = None"
  shows "outbox (fst (handle_user_id_input e sv u b))
           = outbox b @ [\<lparr>chat = effective_chat u, body = invalid_id, markup = None\<rparr>]
         \<and> snd (handle_user_id_input e sv u b) = Inr (Some st)
         \<and> chat_data (fst (handle_user_id_input e sv u b)) = chat_data b
         \<and> conversations (update_state (effective_chat u, effective_user u)
                            (handle_user_id_input e sv u b)) (effective_chat u, effective_user u)
             = Some st
         \<and> users_file (fst (handle_user_id_input e sv u b)) = users_file b"
  using assms
  by (auto simp: handle_user_id_input_def reply_text_def update_state_def states_differ)

theorem C8_invalid_input_keeps_state_witness:
  "chat_data bot_awaiting_add (effective_chat (text_message 1 1 ''abc'')) = Some AWAIT_USER_ID_ADD
   \<and> (AWAIT_USER_ID_ADD = AWAIT_USER_ID_ADD \<or> AWAIT_USER_ID_ADD = AWAIT_USER_ID_REMOVE)
   \<and> py_int env_ex (message_text (text_message 1 1 ''abc'')) = None
   \<and> outbox (fst (handle_user_id_input env_ex Saved (text_message 1 1 ''abc'') bot_awaiting_add))
       = outbox bot_awaiting_add @ [\<lparr>chat = 1, body = invalid_id, markup = None\<rparr>]
   \<and> snd (handle_user_id_input env_ex Saved (text_message 1 1 ''abc'') bot_awaiting_add)
       = Inr (Some AWAIT_USER_ID_ADD)
   \<and> chat_data (fst (handle_user_id_input env_ex Saved (text_message 1 1 ''abc'') bot_awaiting_add)) 1
       = Some AWAIT_USER_ID_ADD
   \<and> users_file (fst (handle_user_id_input env_ex Saved (text_message 1 1 ''abc'') bot_awaiting_add))
       = Absent"
proof -
  have c: "effective_chat (text_message 1 1 ''abc'') = 1"
    by (simp add: text_message_def)
  have h: "chat_data bot_awaiting_add (effective_chat (text_message 1 1 ''abc'')) = Some AWAIT_USER_ID_ADD"
    "py_int env_ex (message_text (text_message 1 1 ''abc'')) = None"
    by (simp_all add: c bot_awaiting_add_fields env_ex_def text_message_def decimal_examples)
  show ?thesis
    using C8_invalid_input_keeps_state [OF h(1) _ h(2), of Saved] h
    by (simp add: c bot_awaiting_add_fields)
qed

lemma bot_after_cancel_fields:
  "users_file bot_after_cancel = Absent"
  "chat_data bot_after_cancel 1 = None"
  "conversations bot_after_cancel (1, 1) = Some AWAIT_USER_ID_ADD"
  by (simp_all add: bot_after_cancel_def bot_awaiting_add_fields dispatch_defs
      command_message_def cancel_def del_current_state_def Let_def states_differ)

text \<open>
  Claim C10: when the submitted text parses as an integer while the conversation has no
  pending add or remove (no \<open>current_state\<close> is stored, or not one of the two), the handler
  replies with the unknown-state message, ends the conversation and leaves the access list
  and its file unchanged; no save is performed (the result is the same for every outcome a
  write would have had).
\<close>

theorem C10_number_without_pending_action:
  assumes "py_int e (message_text u) = Some n"
      and "chat_data b (effective_chat u) \<noteq> Some AWAIT_USER_ID_ADD"
      and "chat_data b (effective_chat u) \<noteq> Some AWAIT_USER_ID_REMOVE"
  shows "outbox (fst (handle_user_id_input e sv u b))
           = outbox b @ [\<lparr>chat = effective_chat u, body = unknown_state, markup = None\<rparr>]
         \<and> snd (handle_user_id_input e sv u b) = Inr (Some END)
         \<and> conversations (update_state (effective_chat u, effective_user u)
                            (handle_user_id_input e sv u b)) (effective_chat u, effective_user u)
             = None
         \<and> users_file (fst (handle_user_id_input e sv u b)) = users_file b
         \<and> chat_data (fst (handle_user_id_input e sv u b)) = chat_data b"
  using assms
  by (simp add: handle_user_id_input_def process_user_id_def Let_def reply_text_def update_state_def)

theorem C10_number_without_pending_action_witness:
  "py_int env_ex (message_text (text_message 1 1 ''42'')) = Some 42
   \<and> chat_data bot_after_cancel (effective_chat (text_message 1 1 ''42'')) \<noteq> Some AWAIT_USER_ID_ADD
   \<and> chat_data bot_after_cancel (effective_chat (text_message 1 1 ''42'')) \<noteq> Some AWAIT_USER_ID_REMOVE
   \<and> outbox (fst (handle_user_id_input env_ex Saved (text_message 1 1 ''42'') bot_after_cancel))
       = outbox bot_after_cancel @ [\<lparr>chat = 1, body = unknown_state, markup = None\<rparr>]
   \<and> snd (handle_user_id_input env_ex Saved (text_message 1 1 ''42'') bot_after_cancel)
       = Inr (Some END)
   \<and> users_file (fst (handle_user_id_input env_ex Saved (text_message 1 1 ''42'') bot_after_cancel))
       = Absent"
proof -
  have c: "effective_chat (text_message 1 1 ''42'') = 1"
    by (simp add: text_message_def)
  have h: "py_int env_ex (message_text (text_message 1 1 ''42'')) = Some 42"
    "chat_data bot_after_cancel (effective_chat (text_message 1 1 ''42'')) \<noteq> Some AWAIT_USER_ID_ADD"
    "chat_data bot_after_cancel (effective_chat (text_message 1 1 ''42'')) \<noteq> Some AWAIT_USER_ID_REMOVE"
    by (simp_all add: c bot_after_cancel_fields env_ex_def text_message_def decimal_examples)
  show ?thesis
    using C10_number_without_pending_action [OF h, of Saved] h
    by (simp add: c bot_after_cancel_fields)
qed

text \<open>
  Claim C9: for every identity \<open>n\<close> not in the allowed users, pressing the add button and
  submitting \<open>n\<close> adds \<open>n\<close>, persists the list and ends the conversation; doing the same again
  with the same \<open>n\<close> reports that the user already exists and inserts no duplicate, so the
  allowed users are the same after one round as after two.

  In the first round the write is one that succeeds (what a failing write does is the
  subject of C2); the second round writes nothing, so its outcome \<open>sv\<close> is arbitrary.
\<close>

theorem C9_add_is_idempotent:
  assumes "py_int e (message_text u) = Some n"
      and "effective_chat t = effective_chat u"
      and "n \<notin> set (allowed_users (load_users e (users_file b)))"
  shows "users_file (fst (add_then_submit e Saved t u b))
           = Json (Some (admin_id (load_users e (users_file b))))
                  (Some (allowed_users (load_users e (users_file b)) @ [n]))
         \<and> allowed_users (load_users e (users_file (fst (add_then_submit e Saved t u b))))
             = allowed_users (load_users e (users_file b)) @ [n]
         \<and> last (outbox (fst (add_then_submit e Saved t u b)))
             = \<lparr>chat = effective_chat u, body = user_added n, markup = None\<rparr>
         \<and> snd (add_then_submit e Saved t u b) = Inr (Some END)
         \<and> chat_data (fst (add_then_submit e Saved t u b)) (effective_chat u) = None
         \<and> last (outbox (fst (add_then_submit e sv t u (fst (add_then_submit e Saved t u b)))))
             = \<lparr>chat = effective_chat u, body = user_exists, markup = None\<rparr>
         \<and> users_file (fst (add_then_submit e sv t u (fst (add_then_submit e Saved t u b))))
             = users_file (fst (add_then_submit e Saved t u b))
         \<and> snd (add_then_submit e sv t u (fst (add_then_submit e Saved t u b))) = Inr (Some END)
         \<and> chat_data (fst (add_then_submit e sv t u (fst (add_then_submit e Saved t u b))))
              (effective_chat u) = None
         \<and> count_list (allowed_users (load_users e (users_file
              (fst (add_then_submit e sv t u (fst (add_then_submit e Saved t u b))))))) n = 1"
proof -
  let ?old = "allowed_users (load_users e (users_file b))"
  let ?f1 = "Json (Some (admin_id (load_users e (users_file b)))) (Some (?old @ [n]))"
  let ?sent1 = "\<lparr>chat = effective_chat u, body = user_added n, markup = None\<rparr>"
  let ?sent2 = "\<lparr>chat = effective_chat u, body = user_exists, markup = None\<rparr>"
  have first: "users_file (fst (add_then_submit e Saved t u b)) = ?f1"
    "last (outbox (fst (add_then_submit e Saved t u b))) = ?sent1"
    "snd (add_then_submit e Saved t u b) = Inr (Some END)"
    "chat_data (fst (add_then_submit e Saved t u b)) (effective_chat u) = None"
    using assms
    by (simp_all add: add_then_submit_def add_user_def handle_user_id_input_def
        process_user_id_def Let_def reply_text_def del_current_state_def save_users_def)
  have second: "users_file (fst (add_then_submit e sv t u b')) = users_file b'"
    "last (outbox (fst (add_then_submit e sv t u b'))) = ?sent2"
    "snd (add_then_submit e sv t u b') = Inr (Some END)"
    "chat_data (fst (add_then_submit e sv t u b')) (effective_chat u) = None"
    if "users_file b' = ?f1" for b'
    using assms(1,2) that
    by (simp_all add: add_then_submit_def add_user_def handle_user_id_input_def
        process_user_id_def Let_def reply_text_def del_current_state_def)
  have cnt: "count_list (?old @ [n]) n = 1"
    using assms(3) by (simp add: count_list_0_iff)
  show ?thesis
    using first second [OF first(1)] cnt by simp
qed

theorem C9_add_is_idempotent_witness:
  "py_int env_ex (message_text (text_message 1 1 ''42'')) = Some 42
   \<and> effective_chat (text_message 1 1 add_button) = effective_chat (text_message 1 1 ''42'')
   \<and> 42 \<notin> set (allowed_users (load_users env_ex (users_file bot_ex)))
   \<and> users_file (fst (add_then_submit env_ex Saved (text_message 1 1 add_button)
                         (text_message 1 1 ''42'') bot_ex))
       = Json (Some 1) (Some [42])
   \<and> users_file (fst (add_then_submit env_ex Saved (text_message 1 1 add_button)
                         (text_message 1 1 ''42'')
                         (fst (add_then_submit env_ex Saved (text_message 1 1 add_button)
                                 (text_message 1 1 ''42'') bot_ex))))
       = Json (Some 1) (Some [42])
   \<and> last (outbox (fst (add_then_submit env_ex Saved (text_message 1 1 add_button)
                         (text_message 1 1 ''42'')
                         (fst (add_then_submit env_ex Saved (text_message 1 1 add_button)
                                 (text_message 1 1 ''42'') bot_ex)))))
       = \<lparr>chat = 1, body = user_exists, markup = None\<rparr>"
proof -
  have h: "py_int env_ex (message_text (text_message 1 1 ''42'')) = Some 42"
    "effective_chat (text_message 1 1 add_button) = effective_chat (text_message 1 1 ''42'')"
    "42 \<notin> set (allowed_users (load_users env_ex (users_file bot_ex)))"
    by (simp_all add: example_defs decimal_examples)
  have f: "users_file bot_ex = Absent" "effective_chat (text_message 1 1 ''42'') = 1"
    "ADMIN_ID env_ex = 1"
    by (simp_all add: example_defs)
  show ?thesis
    using C9_add_is_idempotent [OF h, of Saved] h
    by (simp add: f)
qed

end
